theory Spec2Isabelle
  imports Main "HOL-Library.AList" "HOL-Library.Word" "HOL-Library.Code_Target_Numeral"
begin

section \<open>JavaScript values\<close>

text \<open>
  The handler of \<^verbatim>\<open>src/api/submit.js\<close> works on the parsed request body, on
  environment variables and on the replies of four \<^verbatim>\<open>fetch\<close> calls. Values are
  the JSON fragment of JavaScript plus \<^verbatim>\<open>undefined\<close>.

  \<^item> A string is the list of the bytes of its UTF-8 encoding, so \<^verbatim>\<open>Buffer.from(s)\<close>
    is the string itself; strings are well-formed Unicode (no lone surrogate).
  \<^item> A number is a double. The finite ones of the model are the integers from
    \<open>-2^53\<close> up to \<open>2^53 - 1\<close>, held in a 54-bit word read as signed: each of them
    is a double, and \<^verbatim>\<open>ToString\<close> writes it as its plain decimal numeral. The two
    infinities are there as well (\<^verbatim>\<open>JSON.parse\<close> reads \<^verbatim>\<open>1e999\<close> as
    \<^verbatim>\<open>Infinity\<close>). Fractions, larger magnitudes, \<^verbatim>\<open>-0\<close> and \<^verbatim>\<open>NaN\<close> have no
    value here.
  \<^item> An object is the list of its own properties in the order of their creation;
    keys are distinct in every object JavaScript can build. Enumeration
    (\<^verbatim>\<open>JSON.stringify\<close>) puts the array indices first, see \<open>enumeration_order\<close>.
\<close>

datatype number =
    Finite "54 word"
  | Infinity
  | NegInfinity

datatype jsval =
    JUndefined
  | JNull
  | JBool bool
  | JNum number
  | JStr string
  | JArr "jsval list"
  | JObj "(string \<times> jsval) list"

text \<open>A thrown \<^verbatim>\<open>Error\<close> is carried by its \<^verbatim>\<open>message\<close>, the only part the
  handler's \<^verbatim>\<open>catch\<close> reads.\<close>

type_synonym exn = string

subsection \<open>Truthiness and \<^verbatim>\<open>||\<close>\<close>

fun truthy :: "jsval \<Rightarrow> bool" where
  "truthy JUndefined = False"
| "truthy JNull = False"
| "truthy (JBool b) = b"
| "truthy (JNum n) = (n \<noteq> Finite 0)"
| "truthy (JStr s) = (s \<noteq> [])"
| "truthy (JArr xs) = True"
| "truthy (JObj kvs) = True"

definition js_or :: "jsval \<Rightarrow> jsval \<Rightarrow> jsval" where
  "js_or a b = (if truthy a then a else b)"

subsection \<open>Property reads\<close>

definition squote :: string where
  "squote = [CHR 0x27]"

definition cannot_read :: "string \<Rightarrow> string \<Rightarrow> exn" where
  "cannot_read what k =
     ''Cannot read properties of '' @ what @ '' (reading '' @ squote @ k @ squote @ '')''"

text \<open>\<open>lookup v k\<close> is \<^verbatim>\<open>v[k]\<close> for a \<open>v\<close> that is neither \<^verbatim>\<open>undefined\<close> nor
  \<^verbatim>\<open>null\<close>, for the property names this handler reads (\<^verbatim>\<open>id\<close>, \<^verbatim>\<open>cn_name\<close>,
  \<^verbatim>\<open>content\<close>, \<^verbatim>\<open>plugins\<close>, ...): none of them is a property of a string, number,
  boolean or array, so only an object can hold one. \<open>get_prop\<close> adds the
  \<^verbatim>\<open>TypeError\<close> of a read on \<^verbatim>\<open>undefined\<close> or \<^verbatim>\<open>null\<close>.\<close>

fun lookup :: "jsval \<Rightarrow> string \<Rightarrow> jsval" where
  "lookup (JObj kvs) k = (case map_of kvs k of Some v \<Rightarrow> v | None \<Rightarrow> JUndefined)"
| "lookup v k = JUndefined"

fun get_prop :: "jsval \<Rightarrow> string \<Rightarrow> exn + jsval" where
  "get_prop JUndefined k = Inl (cannot_read ''undefined'' k)"
| "get_prop JNull k = Inl (cannot_read ''null'' k)"
| "get_prop v k = Inr (lookup v k)"

text \<open>\<^verbatim>\<open>o[k] = v\<close> on an object: an existing property keeps its place, a new one
  goes last.\<close>

fun set_prop :: "jsval \<Rightarrow> string \<Rightarrow> jsval \<Rightarrow> jsval" where
  "set_prop (JObj kvs) k v = JObj (AList.update k v kvs)"
| "set_prop u k v = u"

subsection \<open>\<^verbatim>\<open>ToString\<close>\<close>

definition digit_char :: "nat \<Rightarrow> char" where
  "digit_char n = char_of (48 + n)"

fun dec_nat :: "nat \<Rightarrow> string" where
  "dec_nat n = (if n < 10 then [digit_char n] else dec_nat (n div 10) @ [digit_char (n mod 10)])"

declare dec_nat.simps [simp del]

definition dec_int :: "int \<Rightarrow> string" where
  "dec_int i = (if i < 0 then CHR ''-'' # dec_nat (nat (- i)) else dec_nat (nat i))"

fun join_with :: "string \<Rightarrow> string list \<Rightarrow> string" where
  "join_with sep [] = []"
| "join_with sep [x] = x"
| "join_with sep (x # y # ys) = x @ sep @ join_with sep (y # ys)"

text \<open>\<^verbatim>\<open>Number::toString\<close>.\<close>

fun number_string :: "number \<Rightarrow> string" where
  "number_string (Finite w) = dec_int (sint w)"
| "number_string Infinity = ''Infinity''"
| "number_string NegInfinity = ''-Infinity''"

definition cannot_convert :: exn where
  "cannot_convert = ''Cannot convert object to primitive value''"

text \<open>
  \<^verbatim>\<open>ToString(v)\<close>, as a template literal and \<^verbatim>\<open>RegExp.prototype.test\<close> apply it.
  It can throw:
  \<^item> an object goes through \<^verbatim>\<open>OrdinaryToPrimitive\<close>, which calls the object's
    \<^verbatim>\<open>toString\<close> and \<^verbatim>\<open>valueOf\<close> when they are functions. The objects here hold
    data only, so an own property \<^verbatim>\<open>toString\<close> hides
    \<^verbatim>\<open>Object.prototype.toString\<close> behind a value that cannot be called; what
    is left is \<^verbatim>\<open>valueOf\<close>, which is either hidden in the same way or returns the
    object itself: a \<^verbatim>\<open>TypeError\<close>. Without that property the result is
    \<^verbatim>\<open>[object Object]\<close>;
  \<^item> an array joins the strings of its elements with commas, \<^verbatim>\<open>undefined\<close> and
    \<^verbatim>\<open>null\<close> giving the empty string, and throws what its first failing element
    throws.
\<close>

fun to_string :: "jsval \<Rightarrow> exn + string"
  and join_elements :: "jsval list \<Rightarrow> exn + string list" where
  "to_string JUndefined = Inr ''undefined''"
| "to_string JNull = Inr ''null''"
| "to_string (JBool b) = Inr (if b then ''true'' else ''false'')"
| "to_string (JNum n) = Inr (number_string n)"
| "to_string (JStr s) = Inr s"
| "to_string (JArr xs) =
     (case join_elements xs of Inl e \<Rightarrow> Inl e | Inr parts \<Rightarrow> Inr (join_with '','' parts))"
| "to_string (JObj kvs) =
     (if map_of kvs ''toString'' \<noteq> None then Inl cannot_convert else Inr ''[object Object]'')"
| "join_elements [] = Inr []"
| "join_elements (x # xs) =
     (case (case x of JUndefined \<Rightarrow> Inr [] | JNull \<Rightarrow> Inr [] | _ \<Rightarrow> to_string x) of
        Inl e \<Rightarrow> Inl e
      | Inr s \<Rightarrow> (case join_elements xs of Inl e \<Rightarrow> Inl e | Inr parts \<Rightarrow> Inr (s # parts)))"

subsection \<open>\<^verbatim>\<open>Array.prototype.includes\<close>\<close>

text \<open>\<^verbatim>\<open>SameValueZero\<close>: primitives by value, objects and arrays by identity. The
  two sides compared by the handler come from different documents (the index and the
  request), so an object or array on either side is never the same one.\<close>

fun same_value_zero :: "jsval \<Rightarrow> jsval \<Rightarrow> bool" where
  "same_value_zero JUndefined JUndefined = True"
| "same_value_zero JNull JNull = True"
| "same_value_zero (JBool a) (JBool b) = (a = b)"
| "same_value_zero (JNum a) (JNum b) = (a = b)"
| "same_value_zero (JStr a) (JStr b) = (a = b)"
| "same_value_zero a b = False"

definition array_includes :: "jsval list \<Rightarrow> jsval \<Rightarrow> bool" where
  "array_includes xs v = list_ex (\<lambda>x. same_value_zero x v) xs"

section \<open>\<^verbatim>\<open>JSON.stringify\<close> and base64\<close>

subsection \<open>The order of enumeration\<close>

definition digit_value :: "char \<Rightarrow> nat" where
  "digit_value c = of_char c - 48"

definition digits_value :: "string \<Rightarrow> nat" where
  "digits_value ds = foldl (\<lambda>acc c. acc * 10 + digit_value c) 0 ds"

definition in_range :: "char \<Rightarrow> char \<Rightarrow> char \<Rightarrow> bool" where
  "in_range lo hi c = ((of_char lo :: nat) \<le> of_char c \<and> (of_char c :: nat) \<le> of_char hi)"

definition digit :: "char \<Rightarrow> bool" where
  "digit c = in_range CHR ''0'' CHR ''9'' c"

text \<open>An array index is a property key that is the canonical numeral of an integer
  from 0 up to \<open>2^32 - 2\<close>.\<close>

definition array_index :: "string \<Rightarrow> nat option" where
  "array_index k =
     (if k \<noteq> [] \<and> list_all digit k \<and> (hd k \<noteq> CHR ''0'' \<or> tl k = [])
         \<and> digits_value k < 4294967295
      then Some (digits_value k) else None)"

definition index_key :: "string \<times> 'a \<Rightarrow> nat" where
  "index_key kv = (case array_index (fst kv) of None \<Rightarrow> 0 | Some i \<Rightarrow> i)"

definition is_index :: "string \<times> 'a \<Rightarrow> bool" where
  "is_index kv = (array_index (fst kv) \<noteq> None)"

text \<open>\<^verbatim>\<open>OrdinaryOwnPropertyKeys\<close>: the array indices in ascending order, then the
  other keys in the order of their creation.\<close>

definition enumeration_order :: "(string \<times> 'a) list \<Rightarrow> (string \<times> 'a) list" where
  "enumeration_order kvs =
     sort_key index_key (filter is_index kvs) @ filter (\<lambda>kv. \<not> is_index kv) kvs"

subsection \<open>\<^verbatim>\<open>JSON.stringify\<close>\<close>

definition hex_char :: "nat \<Rightarrow> char" where
  "hex_char n = (if n < 10 then char_of (48 + n) else char_of (87 + n))"

text \<open>\<^verbatim>\<open>QuoteJSONString\<close>: the quote, the backslash and the control characters are
  escaped, every other byte is copied.\<close>

definition quote_char :: "char \<Rightarrow> string" where
  "quote_char c =
     (if c = CHR 0x22 then [CHR 0x5C, CHR 0x22]
      else if c = CHR 0x5C then [CHR 0x5C, CHR 0x5C]
      else if c = CHR 0x08 then [CHR 0x5C, CHR ''b'']
      else if c = CHR 0x0C then [CHR 0x5C, CHR ''f'']
      else if c = CHR 0x0A then [CHR 0x5C, CHR ''n'']
      else if c = CHR 0x0D then [CHR 0x5C, CHR ''r'']
      else if c = CHR 0x09 then [CHR 0x5C, CHR ''t'']
      else if (of_char c :: nat) < 0x20 then
        [CHR 0x5C, CHR ''u'', CHR ''0'', CHR ''0'',
         hex_char (of_char c div 16), hex_char (of_char c mod 16)]
      else [c])"

definition json_quote :: "string \<Rightarrow> string" where
  "json_quote s = [CHR 0x22] @ concat (map quote_char s) @ [CHR 0x22]"

definition newline :: string where
  "newline = [CHR 0x0A]"

text \<open>The closing steps of \<^verbatim>\<open>SerializeJSONArray\<close> and
  \<^verbatim>\<open>SerializeJSONObject\<close>: \<open>ind\<close> is the indentation of the enclosing level
  (\<^verbatim>\<open>stepback\<close>), \<open>gap\<close> the unit of indentation.\<close>

definition wrap_items :: "string \<Rightarrow> string \<Rightarrow> string \<Rightarrow> string \<Rightarrow> string list \<Rightarrow> string" where
  "wrap_items gap ind opn cls partial =
     (if partial = [] then opn @ cls
      else if gap = [] then opn @ join_with '','' partial @ cls
      else opn @ newline @ (ind @ gap)
           @ join_with ('','' @ newline @ ind @ gap) partial
           @ newline @ ind @ cls)"

text \<open>\<^verbatim>\<open>SerializeJSONProperty\<close>: \<open>None\<close> is the result \<^verbatim>\<open>undefined\<close>. A number
  that is not finite is written \<^verbatim>\<open>null\<close>. An \<^verbatim>\<open>undefined\<close> element of an array is
  written \<^verbatim>\<open>null\<close>, an \<^verbatim>\<open>undefined\<close> property of an object is left out, and the
  properties come in the order of enumeration. The values here hold data only, so
  no \<^verbatim>\<open>toJSON\<close> is ever called.\<close>

fun json_ser :: "string \<Rightarrow> string \<Rightarrow> jsval \<Rightarrow> string option" where
  "json_ser gap ind JUndefined = None"
| "json_ser gap ind JNull = Some ''null''"
| "json_ser gap ind (JBool b) = Some (if b then ''true'' else ''false'')"
| "json_ser gap ind (JNum n) =
     Some (case n of Finite w \<Rightarrow> number_string n | _ \<Rightarrow> ''null'')"
| "json_ser gap ind (JStr s) = Some (json_quote s)"
| "json_ser gap ind (JArr xs) =
     Some (wrap_items gap ind ''['' '']''
       (map (\<lambda>x. case json_ser gap (ind @ gap) x of None \<Rightarrow> ''null'' | Some s \<Rightarrow> s) xs))"
| "json_ser gap ind (JObj kvs) =
     Some (wrap_items gap ind ''{'' ''}''
       (map snd (enumeration_order
         (concat (map (\<lambda>(k, v). case json_ser gap (ind @ gap) v of
                         None \<Rightarrow> []
                       | Some s \<Rightarrow>
                           [(k, json_quote k @ '':'' @ (if gap = [] then [] else '' '') @ s)])
                  kvs)))))"

text \<open>\<^verbatim>\<open>JSON.stringify(v, null, 2)\<close>.\<close>

definition json_stringify2 :: "jsval \<Rightarrow> string option" where
  "json_stringify2 v = json_ser ''  '' [] v"

definition b64_alphabet :: string where
  "b64_alphabet = ''ABCDEFGHIJKLMNOPQRSTUVWXYZabcdefghijklmnopqrstuvwxyz0123456789+/''"

definition b64_char :: "nat \<Rightarrow> char" where
  "b64_char n = b64_alphabet ! n"

text \<open>Base64 with padding over a list of bytes; every index given to \<open>b64_char\<close> is
  below 64 when the bytes are below 256.\<close>

fun base64_bytes :: "nat list \<Rightarrow> string" where
  "base64_bytes [] = []"
| "base64_bytes [a] =
     [b64_char (a div 4), b64_char ((a mod 4) * 16), CHR ''='', CHR ''='']"
| "base64_bytes [a, b] =
     [b64_char (a div 4), b64_char ((a mod 4) * 16 + b div 16), b64_char ((b mod 16) * 4), CHR ''='']"
| "base64_bytes (a # b # c # rest) =
     [b64_char (a div 4), b64_char ((a mod 4) * 16 + b div 16),
      b64_char ((b mod 16) * 4 + c div 64), b64_char (c mod 64)] @ base64_bytes rest"

text \<open>\<^verbatim>\<open>Buffer.from(s).toString('base64')\<close> for a string \<open>s\<close>.\<close>

definition base64_encode :: "string \<Rightarrow> string" where
  "base64_encode s = base64_bytes (map of_char s)"

section \<open>The handler's surroundings\<close>

text \<open>The incoming request, as far as the handler reads it: \<^verbatim>\<open>req.method\<close> and
  \<^verbatim>\<open>req.body\<close>.\<close>

record request =
  req_method :: string
  req_body :: jsval

text \<open>What the handler leaves in \<^verbatim>\<open>res\<close>: the status code, the headers it set with
  \<^verbatim>\<open>res.setHeader\<close>, and the object given to \<^verbatim>\<open>res.json\<close>.\<close>

record reply =
  res_status :: nat
  res_headers :: "(string \<times> string) list"
  res_json :: jsval

text \<open>\<^verbatim>\<open>process.env\<close>: a variable is a string or is not set.\<close>

record env =
  GITHUB_TOKEN :: "string option"
  GITHUB_REPO :: "string option"

text \<open>One call of \<^verbatim>\<open>fetch(url, {method, headers, body})\<close>. The body is recorded as
  the object the source hands to \<^verbatim>\<open>JSON.stringify\<close>; its wire form is that
  object's JSON text.\<close>

record fetch_call =
  fetch_url :: string
  fetch_method :: string
  fetch_headers :: "(string \<times> string) list"
  fetch_body :: "jsval option"

text \<open>The \<^verbatim>\<open>Response\<close> a \<^verbatim>\<open>fetch\<close> resolves to: \<^verbatim>\<open>status\<close>, and what
  \<^verbatim>\<open>await r.text()\<close> and \<^verbatim>\<open>await r.json()\<close> give, each of which can reject.
  \<^verbatim>\<open>ok\<close> is read off the status: it is true for 200 to 299.\<close>

record response =
  http_status :: nat
  body_text :: "exn + string"
  body_json :: "exn + jsval"

definition ok :: "response \<Rightarrow> bool" where
  "ok r = (200 \<le> http_status r \<and> http_status r \<le> 299)"

datatype fetch_result = Rejected exn | Resolved response

text \<open>
  The platform under the handler, with the remote store in a state \<open>'w\<close>:
  \<^item> \<open>fetch\<close> answers a call and moves the remote state;
  \<^item> \<open>buffer_from_value\<close> is \<^verbatim>\<open>Buffer.from(v)\<close> for a \<open>v\<close> that is not a string
    (Node accepts some arrays and objects and throws on the rest);
  \<^item> \<open>parse_content\<close> is \<^verbatim>\<open>JSON.parse(Buffer.from(c, 'base64').toString('utf-8'))\<close>;
  \<^item> \<open>today\<close> is \<^verbatim>\<open>new Date().toISOString().split('T')[0]\<close>.
  All four are parameters: every theorem below holds for any of them.
\<close>

record 'w platform =
  fetch :: "fetch_call \<Rightarrow> 'w \<Rightarrow> fetch_result \<times> 'w"
  buffer_from_value :: "jsval \<Rightarrow> exn + string"
  parse_content :: "jsval \<Rightarrow> exn + jsval"
  today :: string

text \<open>The result of a run: the reply, the \<^verbatim>\<open>fetch\<close> calls issued in order, and the
  remote state afterwards.\<close>

type_synonym 'w run = "reply \<times> fetch_call list \<times> 'w"

text \<open>Inside \<^verbatim>\<open>try\<close>: either an exception on its way to \<^verbatim>\<open>catch\<close>, or the status
  and body of a \<^verbatim>\<open>return res.status(s).json(b)\<close>.\<close>

type_synonym 'w attempt = "(exn + nat \<times> jsval) \<times> fetch_call list \<times> 'w"

section \<open>The handler\<close>

subsection \<open>Messages and constants\<close>

definition failure :: "string \<Rightarrow> jsval" where
  "failure msg = JObj [(''success'', JBool False), (''error'', JStr msg)]"

definition msg_missing_field :: string where
  "msg_missing_field =
     [CHR 0xE7, CHR 0xBC, CHR 0xBA, CHR 0xE5, CHR 0xB0, CHR 0x91, CHR 0xE5, CHR 0xBF, CHR 0x85,
      CHR 0xE5, CHR 0xA1, CHR 0xAB, CHR 0xE5, CHR 0xAD, CHR 0x97, CHR 0xE6, CHR 0xAE, CHR 0xB5] @ '': ''"

definition msg_bad_id :: string where
  "msg_bad_id =
     [CHR 0xE6, CHR 0x8F, CHR 0x92, CHR 0xE4, CHR 0xBB, CHR 0xB6] @ ''ID''
     @ [CHR 0xE6, CHR 0xA0, CHR 0xBC, CHR 0xE5, CHR 0xBC, CHR 0x8F, CHR 0xE4, CHR 0xB8, CHR 0x8D,
        CHR 0xE6, CHR 0xAD, CHR 0xA3, CHR 0xE7, CHR 0xA1, CHR 0xAE]"

definition msg_no_token :: string where
  "msg_no_token =
     ''GitHub Token '' @ [CHR 0xE6, CHR 0x9C, CHR 0xAA, CHR 0xE9, CHR 0x85, CHR 0x8D, CHR 0xE7, CHR 0xBD, CHR 0xAE]"

definition default_category :: string where
  "default_category = [CHR 0xE5, CHR 0xB7, CHR 0xA5, CHR 0xE5, CHR 0x85, CHR 0xB7]"

definition default_changelog :: string where
  "default_changelog =
     ''v1.0.0 - '' @ [CHR 0xE5, CHR 0x88, CHR 0x9D, CHR 0xE5, CHR 0xA7, CHR 0x8B, CHR 0xE7, CHR 0x89, CHR 0x88,
                     CHR 0xE6, CHR 0x9C, CHR 0xAC]"

definition msg_upload_failed :: "string \<Rightarrow> string" where
  "msg_upload_failed file =
     [CHR 0xE4, CHR 0xB8, CHR 0x8A, CHR 0xE4, CHR 0xBC, CHR 0xA0] @ '' '' @ file @ '' ''
     @ [CHR 0xE5, CHR 0xA4, CHR 0xB1, CHR 0xE8, CHR 0xB4, CHR 0xA5] @ '': ''"

definition msg_exists :: string where
  "msg_exists =
     [CHR 0xE8, CHR 0xAF, CHR 0xA5, CHR 0xE6, CHR 0x8F, CHR 0x92, CHR 0xE4, CHR 0xBB, CHR 0xB6] @ ''ID''
     @ [CHR 0xE5, CHR 0xB7, CHR 0xB2, CHR 0xE5, CHR 0xAD, CHR 0x98, CHR 0xE5, CHR 0x9C, CHR 0xA8]"

definition msg_submitted :: "string \<Rightarrow> string" where
  "msg_submitted cn_name =
     [CHR 0xE6, CHR 0x8F, CHR 0x92, CHR 0xE4, CHR 0xBB, CHR 0xB6] @ '' '' @ cn_name @ '' ''
     @ [CHR 0xE6, CHR 0x8F, CHR 0x90, CHR 0xE4, CHR 0xBA, CHR 0xA4, CHR 0xE6, CHR 0x88, CHR 0x90,
        CHR 0xE5, CHR 0x8A, CHR 0x9F, CHR 0xEF, CHR 0xBC, CHR 0x81]"

definition default_repo :: string where
  "default_repo = ''VBHC-UHY/whitesalary-plugins''"

definition cors_headers :: "(string \<times> string) list" where
  "cors_headers =
     [(''Access-Control-Allow-Origin'', ''*''),
      (''Access-Control-Allow-Methods'', ''POST''),
      (''Access-Control-Allow-Headers'', ''Content-Type'')]"

subsection \<open>Validation (lines 16--29)\<close>

definition required :: "string list" where
  "required = [''id'', ''cn_name'', ''author'', ''description'', ''code'']"

text \<open>The \<^verbatim>\<open>for\<close> loop over \<^verbatim>\<open>required\<close>: the exception of \<^verbatim>\<open>data[field]\<close>, or
  the first field whose value is falsy, or \<open>None\<close> when the loop runs to its end.\<close>

fun check_required :: "jsval \<Rightarrow> string list \<Rightarrow> exn + string option" where
  "check_required data [] = Inr None"
| "check_required data (field # rest) =
     (case get_prop data field of
        Inl e \<Rightarrow> Inl e
      | Inr v \<Rightarrow> if \<not> truthy v then Inr (Some field) else check_required data rest)"

text \<open>Regular expressions over bytes, with character classes given as ranges, and
  matching of a whole input by derivatives.\<close>

datatype regex =
    Never
  | Empty
  | Class "(char \<times> char) list"
  | Alt regex regex
  | Seq regex regex
  | Star regex

definition in_class :: "(char \<times> char) list \<Rightarrow> char \<Rightarrow> bool" where
  "in_class ranges c = list_ex (\<lambda>(lo, hi). in_range lo hi c) ranges"

fun nullable :: "regex \<Rightarrow> bool" where
  "nullable Never = False"
| "nullable Empty = True"
| "nullable (Class ranges) = False"
| "nullable (Alt r s) = (nullable r \<or> nullable s)"
| "nullable (Seq r s) = (nullable r \<and> nullable s)"
| "nullable (Star r) = True"

fun deriv :: "char \<Rightarrow> regex \<Rightarrow> regex" where
  "deriv c Never = Never"
| "deriv c Empty = Never"
| "deriv c (Class ranges) = (if in_class ranges c then Empty else Never)"
| "deriv c (Alt r s) = Alt (deriv c r) (deriv c s)"
| "deriv c (Seq r s) =
     (if nullable r then Alt (Seq (deriv c r) s) (deriv c s) else Seq (deriv c r) s)"
| "deriv c (Star r) = Seq (deriv c r) (Star r)"

fun full_match :: "regex \<Rightarrow> string \<Rightarrow> bool" where
  "full_match r [] = nullable r"
| "full_match r (c # cs) = full_match (deriv c r) cs"

text \<open>\<^verbatim>\<open>/^[a-z][a-z0-9_]*$/\<close>: the anchors make \<^verbatim>\<open>test\<close> a match of the whole input
  (without the \<^verbatim>\<open>m\<close> flag, \<^verbatim>\<open>$\<close> is the end of the input only).\<close>

definition id_pattern :: regex where
  "id_pattern =
     Seq (Class [(CHR ''a'', CHR ''z'')])
         (Star (Class [(CHR ''a'', CHR ''z''), (CHR ''0'', CHR ''9''), (CHR ''_'', CHR ''_'')]))"

text \<open>\<^verbatim>\<open>/.../.test(pluginId)\<close> converts its argument to a string first, which can
  throw.\<close>

definition id_regex_test :: "jsval \<Rightarrow> exn + bool" where
  "id_regex_test v =
     (case to_string v of Inl e \<Rightarrow> Inl e | Inr s \<Rightarrow> Inr (full_match id_pattern s))"

text \<open>The pattern in the words of the specification: a lowercase letter, followed by
  zero or more lowercase letters, digits or underscores.\<close>

definition lowercase :: "char \<Rightarrow> bool" where
  "lowercase c = in_range CHR ''a'' CHR ''z'' c"

fun id_spec :: "string \<Rightarrow> bool" where
  "id_spec [] = False"
| "id_spec (c # cs) = (lowercase c \<and> list_all (\<lambda>x. lowercase x \<or> digit x \<or> x = CHR ''_'') cs)"

subsection \<open>The derived documents (lines 40--57 and 132--152)\<close>

definition config_content :: "jsval \<Rightarrow> jsval" where
  "config_content data =
     (let pluginId = lookup data ''id'' in
      JObj [
        (''id'', pluginId),
        (''name'', pluginId),
        (''cn_name'', lookup data ''cn_name''),
        (''version'', js_or (lookup data ''version'') (JStr ''1.0.0'')),
        (''author'', lookup data ''author''),
        (''description'', lookup data ''description''),
        (''full_description'', js_or (lookup data ''full_description'') (lookup data ''description'')),
        (''category'', js_or (lookup data ''category'') (JStr default_category)),
        (''keywords'', JArr []),
        (''triggers'', js_or (lookup data ''commands'') (JArr [])),
        (''features'', js_or (lookup data ''features'') (JArr [])),
        (''usage'', js_or (lookup data ''usage'') (JStr [])),
        (''commands'', js_or (lookup data ''commands'') (JArr [])),
        (''changelog'', js_or (lookup data ''changelog'') (JStr default_changelog)),
        (''notes'', js_or (lookup data ''notes'') (JStr [])),
        (''featured'', JBool False)])"

definition raw_base :: string where
  "raw_base = ''https://raw.githubusercontent.com/''"

text \<open>The entry for the index. Its last field is a template literal over
  \<^verbatim>\<open>pluginId\<close> (line 151).\<close>

definition new_plugin :: "string \<Rightarrow> jsval \<Rightarrow> exn + jsval" where
  "new_plugin repo data =
     (let pluginId = lookup data ''id'' in
      case to_string pluginId of
        Inl e \<Rightarrow> Inl e
      | Inr idText \<Rightarrow>
      Inr (JObj [
        (''id'', pluginId),
        (''name'', pluginId),
        (''cn_name'', lookup data ''cn_name''),
        (''version'', js_or (lookup data ''version'') (JStr ''1.0.0'')),
        (''author'', lookup data ''author''),
        (''description'', lookup data ''description''),
        (''full_description'', js_or (lookup data ''full_description'') (lookup data ''description'')),
        (''category'', js_or (lookup data ''category'') (JStr default_category)),
        (''keywords'', JArr []),
        (''triggers'', js_or (lookup data ''commands'') (JArr [])),
        (''features'', js_or (lookup data ''features'') (JArr [])),
        (''usage'', js_or (lookup data ''usage'') (JStr [])),
        (''commands'', js_or (lookup data ''commands'') (JArr [])),
        (''changelog'', js_or (lookup data ''changelog'') (JStr default_changelog)),
        (''notes'', js_or (lookup data ''notes'') (JStr [])),
        (''downloads'', JNum (Finite 0)),
        (''rating'', JNum (Finite 5)),
        (''featured'', JBool False),
        (''download_url'', JStr (raw_base @ repo @ ''/main/plugins/'' @ idText))]))"

subsection \<open>Talking to the content API (lines 59--171)\<close>

definition api_headers :: "string \<Rightarrow> (string \<times> string) list" where
  "api_headers token =
     [(''Authorization'', ''token '' @ token),
      (''Accept'', ''application/vnd.github.v3+json''),
      (''Content-Type'', ''application/json'')]"

definition contents_url :: "string \<Rightarrow> string \<Rightarrow> string" where
  "contents_url repo path = ''https://api.github.com/repos/'' @ repo @ ''/contents/'' @ path"

text \<open>The template literals of lines 66 and 88, each converting \<^verbatim>\<open>pluginId\<close> to a
  string.\<close>

definition plugin_path :: "jsval \<Rightarrow> exn + string" where
  "plugin_path pluginId =
     (case to_string pluginId of
        Inl e \<Rightarrow> Inl e
      | Inr idText \<Rightarrow> Inr (''plugins/'' @ idText @ ''/plugin.py''))"

definition config_path :: "jsval \<Rightarrow> exn + string" where
  "config_path pluginId =
     (case to_string pluginId of
        Inl e \<Rightarrow> Inl e
      | Inr idText \<Rightarrow> Inr (''plugins/'' @ idText @ ''/config.json''))"

text \<open>The commit messages of lines 70, 92 and 159, each converting
  \<^verbatim>\<open>data.cn_name\<close> to a string.\<close>

definition commit_message :: "string \<Rightarrow> jsval \<Rightarrow> exn + string" where
  "commit_message what data =
     (case to_string (lookup data ''cn_name'') of
        Inl e \<Rightarrow> Inl e
      | Inr name \<Rightarrow> Inr (what @ name))"

text \<open>\<^verbatim>\<open>Buffer.from(v)\<close>: the bytes of a string, the platform's answer otherwise.\<close>

definition buffer_from :: "'w platform \<Rightarrow> jsval \<Rightarrow> exn + string" where
  "buffer_from pf v = (case v of JStr s \<Rightarrow> Inr s | _ \<Rightarrow> buffer_from_value pf v)"

definition buffer_type_error :: exn where
  "buffer_type_error =
     ''The first argument must be of type string or an instance of Buffer, ArrayBuffer, ''
     @ ''or Array or an Array-like Object. Received undefined''"

text \<open>\<^verbatim>\<open>Buffer.from(JSON.stringify(v, null, 2)).toString('base64')\<close>. The branch of
  \<^verbatim>\<open>undefined\<close> is there for totality: the handler serialises objects only.\<close>

definition encode_json :: "jsval \<Rightarrow> exn + string" where
  "encode_json v =
     (case json_stringify2 v of
        None \<Rightarrow> Inl buffer_type_error
      | Some s \<Rightarrow> Inr (base64_encode s))"

definition upload_data :: "string \<Rightarrow> string \<Rightarrow> jsval" where
  "upload_data message content =
     JObj [(''message'', JStr message), (''content'', JStr content), (''branch'', JStr ''main'')]"

definition put_call :: "string \<Rightarrow> (string \<times> string) list \<Rightarrow> jsval \<Rightarrow> fetch_call" where
  "put_call u hs b = \<lparr>fetch_url = u, fetch_method = ''PUT'', fetch_headers = hs, fetch_body = Some b\<rparr>"

text \<open>\<^verbatim>\<open>fetch(url, {headers})\<close>: no method given, so a \<^verbatim>\<open>GET\<close> without a body.\<close>

definition get_call :: "string \<Rightarrow> (string \<times> string) list \<Rightarrow> fetch_call" where
  "get_call u hs = \<lparr>fetch_url = u, fetch_method = ''GET'', fetch_headers = hs, fetch_body = None\<rparr>"

text \<open>The four calls of the handler. What the first two need is evaluated in the
  order of the source: the path (lines 66 and 88), the message (lines 70 and 92),
  the content (lines 71 and 93); the first of these to throw ends the \<^verbatim>\<open>try\<close>
  block before the call is made.\<close>

definition plugin_call :: "'w platform \<Rightarrow> string \<Rightarrow> string \<Rightarrow> jsval \<Rightarrow> exn + fetch_call" where
  "plugin_call pf token repo data =
     (case plugin_path (lookup data ''id'') of
        Inl e \<Rightarrow> Inl e
      | Inr pluginPath \<Rightarrow>
          (case commit_message ''Add plugin: '' data of
             Inl e \<Rightarrow> Inl e
           | Inr message \<Rightarrow>
               (case buffer_from pf (lookup data ''code'') of
                  Inl e \<Rightarrow> Inl e
                | Inr code \<Rightarrow>
                    Inr (put_call (contents_url repo pluginPath) (api_headers token)
                           (upload_data message (base64_encode code))))))"

definition config_call :: "string \<Rightarrow> string \<Rightarrow> jsval \<Rightarrow> exn + fetch_call" where
  "config_call token repo data =
     (case config_path (lookup data ''id'') of
        Inl e \<Rightarrow> Inl e
      | Inr configPath \<Rightarrow>
          (case commit_message ''Add config for: '' data of
             Inl e \<Rightarrow> Inl e
           | Inr message \<Rightarrow>
               (case encode_json (config_content data) of
                  Inl e \<Rightarrow> Inl e
                | Inr content \<Rightarrow>
                    Inr (put_call (contents_url repo configPath) (api_headers token)
                           (upload_data message content)))))"

definition index_read_call :: "string \<Rightarrow> string \<Rightarrow> fetch_call" where
  "index_read_call token repo = get_call (contents_url repo ''plugins.json'') (api_headers token)"

definition empty_index :: jsval where
  "empty_index = JObj [(''version'', JStr ''1.0.0''), (''last_updated'', JStr []), (''plugins'', JArr [])]"

text \<open>Lines 115--123: the index document and its \<^verbatim>\<open>sha\<close>, or the empty index and
  \<^verbatim>\<open>null\<close> when the read was not a success.\<close>

definition read_index :: "'w platform \<Rightarrow> response \<Rightarrow> exn + jsval \<times> jsval" where
  "read_index pf pluginsRes =
     (if ok pluginsRes then
        (case body_json pluginsRes of
           Inl e \<Rightarrow> Inl e
         | Inr pluginsFile \<Rightarrow>
             (case get_prop pluginsFile ''content'' of
                Inl e \<Rightarrow> Inl e
              | Inr content \<Rightarrow>
                  (case parse_content pf content of
                     Inl e \<Rightarrow> Inl e
                   | Inr pluginsData \<Rightarrow> Inr (pluginsData, lookup pluginsFile ''sha''))))
      else Inr (empty_index, JNull))"

text \<open>Line 126, \<^verbatim>\<open>pluginsData.plugins.map(p => p.id)\<close>: the callback runs over the
  elements in order, and the first element that is \<^verbatim>\<open>null\<close> throws.\<close>

fun plugin_ids :: "jsval list \<Rightarrow> exn + jsval list" where
  "plugin_ids [] = Inr []"
| "plugin_ids (p # ps) =
     (case get_prop p ''id'' of
        Inl e \<Rightarrow> Inl e
      | Inr i \<Rightarrow> (case plugin_ids ps of Inl e \<Rightarrow> Inl e | Inr ids \<Rightarrow> Inr (i # ids)))"

fun map_ids :: "jsval \<Rightarrow> exn + jsval list" where
  "map_ids (JArr ps) = plugin_ids ps"
| "map_ids JUndefined = Inl (cannot_read ''undefined'' ''map'')"
| "map_ids JNull = Inl (cannot_read ''null'' ''map'')"
| "map_ids v = Inl ''pluginsData.plugins.map is not a function''"

text \<open>\<^verbatim>\<open>xs.push(v)\<close> on an array; the handler reaches it with an array only.\<close>

fun array_push :: "jsval \<Rightarrow> jsval \<Rightarrow> jsval" where
  "array_push (JArr xs) v = JArr (xs @ [v])"
| "array_push u v = u"

text \<open>Lines 131--165: the index after \<^verbatim>\<open>push\<close> and the new \<^verbatim>\<open>last_updated\<close>, and
  the body of the final write, with \<^verbatim>\<open>sha\<close> when it is truthy.\<close>

definition updated_index :: "string \<Rightarrow> jsval \<Rightarrow> jsval \<Rightarrow> jsval \<Rightarrow> jsval" where
  "updated_index date pluginsData plugins newPlugin =
     set_prop (set_prop pluginsData ''plugins'' (array_push plugins newPlugin))
       ''last_updated'' (JStr date)"

definition update_data :: "string \<Rightarrow> string \<Rightarrow> jsval \<Rightarrow> jsval" where
  "update_data message content sha =
     (if truthy sha then set_prop (upload_data message content) ''sha'' sha
      else upload_data message content)"

text \<open>Lines 158--171: the message (line 159), then the content (line 160).\<close>

definition index_write_call :: "string \<Rightarrow> string \<Rightarrow> jsval \<Rightarrow> jsval \<Rightarrow> jsval \<Rightarrow> exn + fetch_call" where
  "index_write_call token repo data pluginsData sha =
     (case commit_message ''Add plugin to list: '' data of
        Inl e \<Rightarrow> Inl e
      | Inr message \<Rightarrow>
          (case encode_json pluginsData of
             Inl e \<Rightarrow> Inl e
           | Inr content \<Rightarrow>
               Inr (put_call (contents_url repo ''plugins.json'') (api_headers token)
                      (update_data message content sha))))"

text \<open>Lines 173--176, with the template literal of line 175.\<close>

definition success_body :: "jsval \<Rightarrow> exn + jsval" where
  "success_body data =
     (case to_string (lookup data ''cn_name'') of
        Inl e \<Rightarrow> Inl e
      | Inr name \<Rightarrow>
          Inr (JObj [(''success'', JBool True), (''message'', JStr (msg_submitted name))]))"

text \<open>Lines 109--176. \<^verbatim>\<open>console.error\<close> is not modelled: it changes neither the
  reply nor the calls.\<close>

definition update_index ::
  "'w platform \<Rightarrow> string \<Rightarrow> string \<Rightarrow> jsval \<Rightarrow> fetch_call list \<Rightarrow> 'w \<Rightarrow> 'w attempt" where
  "update_index pf token repo data calls w =
     (let pluginId = lookup data ''id'';
          readCall = index_read_call token repo;
          (r, w1) = fetch pf readCall w;
          calls1 = calls @ [readCall] in
      case r of
        Rejected e \<Rightarrow> (Inl e, calls1, w1)
      | Resolved pluginsRes \<Rightarrow>
          (case read_index pf pluginsRes of
             Inl e \<Rightarrow> (Inl e, calls1, w1)
           | Inr (pluginsData, sha) \<Rightarrow>
               (case get_prop pluginsData ''plugins'' of
                  Inl e \<Rightarrow> (Inl e, calls1, w1)
                | Inr plugins \<Rightarrow>
                    (case map_ids plugins of
                       Inl e \<Rightarrow> (Inl e, calls1, w1)
                     | Inr existingIds \<Rightarrow>
                         if array_includes existingIds pluginId then
                           (Inr (400, failure msg_exists), calls1, w1)
                         else
                           (case new_plugin repo data of
                              Inl e \<Rightarrow> (Inl e, calls1, w1)
                            | Inr newPlugin \<Rightarrow>
                                (case index_write_call token repo data
                                        (updated_index (today pf) pluginsData plugins newPlugin) sha of
                                   Inl e \<Rightarrow> (Inl e, calls1, w1)
                                 | Inr writeCall \<Rightarrow>
                                     (let (r2, w2) = fetch pf writeCall w1;
                                          calls2 = calls1 @ [writeCall] in
                                      case r2 of
                                        Rejected e \<Rightarrow> (Inl e, calls2, w2)
                                      | Resolved updateRes \<Rightarrow>
                                          (case success_body data of
                                             Inl e \<Rightarrow> (Inl e, calls2, w2)
                                           | Inr b \<Rightarrow> (Inr (200, b), calls2, w2)))))))))"

text \<open>Lines 87--107, then the index.\<close>

definition upload_config ::
  "'w platform \<Rightarrow> string \<Rightarrow> string \<Rightarrow> jsval \<Rightarrow> fetch_call list \<Rightarrow> 'w \<Rightarrow> 'w attempt" where
  "upload_config pf token repo data calls w =
     (case config_call token repo data of
        Inl e \<Rightarrow> (Inl e, calls, w)
      | Inr call \<Rightarrow>
          (let (r, w1) = fetch pf call w;
               calls1 = calls @ [call] in
           case r of
             Rejected e \<Rightarrow> (Inl e, calls1, w1)
           | Resolved configRes \<Rightarrow>
               if \<not> ok configRes then
                 (case body_text configRes of
                    Inl e \<Rightarrow> (Inl e, calls1, w1)
                  | Inr errorText \<Rightarrow>
                      (Inr (500, failure (msg_upload_failed ''config.json''
                                           @ dec_nat (http_status configRes))), calls1, w1))
               else update_index pf token repo data calls1 w1))"

text \<open>Lines 59--85, then the config file.\<close>

definition upload_plugin ::
  "'w platform \<Rightarrow> string \<Rightarrow> string \<Rightarrow> jsval \<Rightarrow> 'w \<Rightarrow> 'w attempt" where
  "upload_plugin pf token repo data w =
     (case plugin_call pf token repo data of
        Inl e \<Rightarrow> (Inl e, [], w)
      | Inr call \<Rightarrow>
          (let (r, w1) = fetch pf call w in
           case r of
             Rejected e \<Rightarrow> (Inl e, [call], w1)
           | Resolved pluginRes \<Rightarrow>
               if \<not> ok pluginRes then
                 (case body_text pluginRes of
                    Inl e \<Rightarrow> (Inl e, [call], w1)
                  | Inr errorText \<Rightarrow>
                      (Inr (500, failure (msg_upload_failed ''plugin.py''
                                           @ dec_nat (http_status pluginRes))), [call], w1))
               else upload_config pf token repo data [call] w1))"

subsection \<open>The \<^verbatim>\<open>try\<close> block and the handler (lines 2--182)\<close>

text \<open>\<^verbatim>\<open>process.env.X\<close> is truthy when it is set to a non-empty string.\<close>

definition env_truthy :: "string option \<Rightarrow> bool" where
  "env_truthy v = (case v of None \<Rightarrow> False | Some s \<Rightarrow> s \<noteq> [])"

definition env_or :: "string option \<Rightarrow> string \<Rightarrow> string" where
  "env_or v d = (case v of None \<Rightarrow> d | Some s \<Rightarrow> if s \<noteq> [] then s else d)"

text \<open>Lines 14--176. After the loop over \<^verbatim>\<open>required\<close> has passed, \<^verbatim>\<open>data\<close> is
  neither \<^verbatim>\<open>undefined\<close> nor \<^verbatim>\<open>null\<close>, so the later reads of \<^verbatim>\<open>data.x\<close> cannot
  throw and are written with \<open>lookup\<close>.\<close>

definition try_block :: "'w platform \<Rightarrow> env \<Rightarrow> jsval \<Rightarrow> 'w \<Rightarrow> 'w attempt" where
  "try_block pf ev data w =
     (case check_required data required of
        Inl e \<Rightarrow> (Inl e, [], w)
      | Inr (Some field) \<Rightarrow> (Inr (400, failure (msg_missing_field @ field)), [], w)
      | Inr None \<Rightarrow>
          (let pluginId = lookup data ''id'' in
           case id_regex_test pluginId of
             Inl e \<Rightarrow> (Inl e, [], w)
           | Inr matches \<Rightarrow>
               if \<not> matches then (Inr (400, failure msg_bad_id), [], w)
               else
                 (let repo = env_or (GITHUB_REPO ev) default_repo in
                  if \<not> env_truthy (GITHUB_TOKEN ev) then (Inr (500, failure msg_no_token), [], w)
                  else upload_plugin pf (env_or (GITHUB_TOKEN ev) []) repo data w)))"

text \<open>How the handler answers what the \<^verbatim>\<open>try\<close> block did, with the headers set
  on lines 9--11: a \<^verbatim>\<open>return\<close> as it is, an exception through \<^verbatim>\<open>catch\<close> as status
  500 with its message.\<close>

definition respond :: "'w attempt \<Rightarrow> 'w run" where
  "respond a =
     (case a of
        (Inr (s, b), calls, w) \<Rightarrow>
          (\<lparr>res_status = s, res_headers = cors_headers, res_json = b\<rparr>, calls, w)
      | (Inl e, calls, w) \<Rightarrow>
          (\<lparr>res_status = 500, res_headers = cors_headers, res_json = failure e\<rparr>, calls, w))"

text \<open>The whole handler: the method gate comes first and returns before any header
  is set.\<close>

definition handler :: "'w platform \<Rightarrow> env \<Rightarrow> request \<Rightarrow> 'w \<Rightarrow> 'w run" where
  "handler pf ev req w =
     (if req_method req \<noteq> ''POST'' then
        (\<lparr>res_status = 405, res_headers = [], res_json = failure ''Method not allowed''\<rparr>, [], w)
      else respond (try_block pf ev (req_body req) w))"

section \<open>Reading the uploads back\<close>

text \<open>
  The handler only writes base64 and JSON. To state what a reader of the uploaded
  files gets, the two are read back here: base64 with padding, and \<^verbatim>\<open>JSON.parse\<close>
  over the values of this model. A reading has three outcomes:
  \<^item> \<open>Got v\<close>: the reader returns the value \<open>v\<close>;
  \<^item> \<open>Syntax_error\<close>: \<^verbatim>\<open>JSON.parse\<close> throws a \<^verbatim>\<open>SyntaxError\<close>;
  \<^item> \<open>Unmodelled\<close>: the text leaves the part of the two formats that is written
    out here (a number with a fraction or an exponent, an integer beyond 54 bits,
    \<^verbatim>\<open>-0\<close>, the escape of a surrogate, base64 that is not in canonical form);
    nothing is said about what JavaScript makes of it.
\<close>

datatype 'a reading = Got 'a | Syntax_error | Unmodelled

subsection \<open>Base64\<close>

text \<open>The position of a character in a list.\<close>

fun index_of :: "'a \<Rightarrow> 'a list \<Rightarrow> nat option" where
  "index_of c [] = None"
| "index_of c (x # xs) =
     (if c = x then Some 0 else case index_of c xs of None \<Rightarrow> None | Some i \<Rightarrow> Some (Suc i))"

definition b64_value :: "char \<Rightarrow> nat option" where
  "b64_value c = index_of c b64_alphabet"

text \<open>Groups of four characters, the last one padded with one or two \<^verbatim>\<open>=\<close>.
  \<open>None\<close> stands for a text that is not of this form.\<close>

fun base64_values :: "string \<Rightarrow> nat list option" where
  "base64_values [] = Some []"
| "base64_values (c1 # c2 # c3 # c4 # rest) =
     (case (b64_value c1, b64_value c2) of
        (Some n1, Some n2) \<Rightarrow>
          (if c3 = CHR ''='' \<and> c4 = CHR ''='' \<and> rest = [] then Some [n1 * 4 + n2 div 16]
           else case b64_value c3 of
             None \<Rightarrow> None
           | Some n3 \<Rightarrow>
               (if c4 = CHR ''='' \<and> rest = [] then
                  Some [n1 * 4 + n2 div 16, (n2 mod 16) * 16 + n3 div 4]
                else case b64_value c4 of
                  None \<Rightarrow> None
                | Some n4 \<Rightarrow>
                    (case base64_values rest of
                       None \<Rightarrow> None
                     | Some bytes \<Rightarrow>
                         Some ([n1 * 4 + n2 div 16, (n2 mod 16) * 16 + n3 div 4, (n3 mod 4) * 64 + n4]
                               @ bytes))))
      | _ \<Rightarrow> None)"
| "base64_values cs = None"

text \<open>\<open>None\<close>: the text is not canonical base64 (Node's decoder is lenient and
  still makes bytes of it).\<close>

definition base64_decode :: "string \<Rightarrow> string option" where
  "base64_decode s = map_option (map char_of) (base64_values s)"

subsection \<open>\<^verbatim>\<open>JSON.parse\<close>\<close>

text \<open>White space of the JSON grammar.\<close>

definition is_ws :: "char \<Rightarrow> bool" where
  "is_ws c = (c = CHR '' '' \<or> c = CHR 0x0A \<or> c = CHR 0x0D \<or> c = CHR 0x09)"

definition skip_ws :: "string \<Rightarrow> string" where
  "skip_ws s = dropWhile is_ws s"

definition strip_prefix :: "string \<Rightarrow> string \<Rightarrow> string reading" where
  "strip_prefix p s = (if take (length p) s = p then Got (drop (length p) s) else Syntax_error)"

text \<open>
  Numbers. The grammar is \<^verbatim>\<open>-? (0 | [1-9][0-9]*)\<close> followed by an optional fraction
  and exponent. A leading zero is a syntax error. A fraction or an exponent, \<^verbatim>\<open>-0\<close>
  and an integer that does not fit the 54 bits are outside the model.
\<close>

definition number_goes_on :: "string \<Rightarrow> bool" where
  "number_goes_on rest =
     (case rest of [] \<Rightarrow> False | c # cs \<Rightarrow> c = CHR ''.'' \<or> c = CHR ''e'' \<or> c = CHR ''E'')"

definition parse_digits :: "string \<Rightarrow> (nat \<times> string) reading" where
  "parse_digits s =
     (let ds = takeWhile digit s; rest = dropWhile digit s in
      if ds = [] then Syntax_error
      else if hd ds = CHR ''0'' \<and> tl ds \<noteq> [] then Syntax_error
      else if number_goes_on rest then Unmodelled
      else Got (digits_value ds, rest))"

definition parse_integer :: "string \<Rightarrow> (int \<times> string) reading" where
  "parse_integer s =
     (case s of
        [] \<Rightarrow> Syntax_error
      | c # cs \<Rightarrow>
          if c = CHR ''-'' then
            (case parse_digits cs of
               Got (n, rest) \<Rightarrow> if n = 0 then Unmodelled else Got (- int n, rest)
             | Syntax_error \<Rightarrow> Syntax_error
             | Unmodelled \<Rightarrow> Unmodelled)
          else map_reading (\<lambda>(n, rest). (int n, rest)) (parse_digits s))"

definition parse_number :: "string \<Rightarrow> (jsval \<times> string) reading" where
  "parse_number s =
     (case parse_integer s of
        Got (i, rest) \<Rightarrow>
          if - (2 ^ 53) \<le> i \<and> i < 2 ^ 53 then Got (JNum (Finite (word_of_int i)), rest)
          else Unmodelled
      | Syntax_error \<Rightarrow> Syntax_error
      | Unmodelled \<Rightarrow> Unmodelled)"

text \<open>
  Strings, read after the opening quote up to the closing one. A raw control character
  is a syntax error. An escape \<^verbatim>\<open>\uXXXX\<close> gives the UTF-8 bytes of its code point; the
  escape of a surrogate is outside the model (a lone surrogate is not a string of
  this model, and pairs are not put together here).
\<close>

definition hex_value :: "char \<Rightarrow> nat option" where
  "hex_value c =
     (if in_range CHR ''0'' CHR ''9'' c then Some (of_char c - 48)
      else if in_range CHR ''a'' CHR ''f'' c then Some (of_char c - 87)
      else if in_range CHR ''A'' CHR ''F'' c then Some (of_char c - 55)
      else None)"

definition hex4_value :: "char \<Rightarrow> char \<Rightarrow> char \<Rightarrow> char \<Rightarrow> nat option" where
  "hex4_value a b c d =
     (case (hex_value a, hex_value b, hex_value c, hex_value d) of
        (Some w, Some x, Some y, Some z) \<Rightarrow> Some (((w * 16 + x) * 16 + y) * 16 + z)
      | _ \<Rightarrow> None)"

definition utf8 :: "nat \<Rightarrow> string option" where
  "utf8 n =
     (if n < 0x80 then Some [char_of n]
      else if n < 0x800 then Some [char_of (0xC0 + n div 64), char_of (0x80 + n mod 64)]
      else if 0xD800 \<le> n \<and> n < 0xE000 then None
      else Some [char_of (0xE0 + n div 4096), char_of (0x80 + (n div 64) mod 64),
                 char_of (0x80 + n mod 64)])"

definition unescape :: "char \<Rightarrow> char option" where
  "unescape e =
     (if e = CHR 0x22 \<or> e = CHR 0x5C \<or> e = CHR ''/'' then Some e
      else if e = CHR ''b'' then Some (CHR 0x08)
      else if e = CHR ''f'' then Some (CHR 0x0C)
      else if e = CHR ''n'' then Some (CHR 0x0A)
      else if e = CHR ''r'' then Some (CHR 0x0D)
      else if e = CHR ''t'' then Some (CHR 0x09)
      else None)"

fun parse_string :: "string \<Rightarrow> (string \<times> string) reading" where
  "parse_string [] = Syntax_error"
| "parse_string (c # cs) =
     (if c = CHR 0x22 then Got ([], cs)
      else if c = CHR 0x5C then
        (case cs of
           [] \<Rightarrow> Syntax_error
         | e # r \<Rightarrow>
             if e = CHR ''u'' then
               (case r of
                  h1 # h2 # h3 # h4 # r' \<Rightarrow>
                    (case hex4_value h1 h2 h3 h4 of
                       None \<Rightarrow> Syntax_error
                     | Some n \<Rightarrow>
                         (case utf8 n of
                            None \<Rightarrow> Unmodelled
                          | Some bytes \<Rightarrow>
                              map_reading (\<lambda>(s, rest). (bytes @ s, rest)) (parse_string r')))
                | _ \<Rightarrow> Syntax_error)
             else
               (case unescape e of
                  None \<Rightarrow> Syntax_error
                | Some ch \<Rightarrow> map_reading (\<lambda>(s, rest). (ch # s, rest)) (parse_string r)))
      else if (of_char c :: nat) < 0x20 then Syntax_error
      else map_reading (\<lambda>(s, rest). (c # s, rest)) (parse_string cs))"

text \<open>
  Objects. \<^verbatim>\<open>JSON.parse\<close> defines the members in the order of the text; a key that
  comes again overwrites the value and keeps its place. The object is given with its
  properties in the order of enumeration.
\<close>

definition collect :: "(string \<times> jsval) list \<Rightarrow> (string \<times> jsval) list" where
  "collect kvs = enumeration_order (foldl (\<lambda>acc (k, v). AList.update k v acc) [] kvs)"

text \<open>
  Values, the elements of an array after its first bracket, and the members of an
  object after its brace. The first argument bounds the depth of the calls; it goes
  down by one at each call, and a reading that uses it up is \<open>Unmodelled\<close>.
\<close>

fun parse_value :: "nat \<Rightarrow> string \<Rightarrow> (jsval \<times> string) reading"
  and parse_elements :: "nat \<Rightarrow> string \<Rightarrow> (jsval list \<times> string) reading"
  and parse_members :: "nat \<Rightarrow> string \<Rightarrow> ((string \<times> jsval) list \<times> string) reading" where
  "parse_value 0 s = Unmodelled"
| "parse_value (Suc n) s =
     (case skip_ws s of
        [] \<Rightarrow> Syntax_error
      | c # cs \<Rightarrow>
          if c = CHR ''n'' then map_reading (Pair JNull) (strip_prefix ''ull'' cs)
          else if c = CHR ''t'' then map_reading (Pair (JBool True)) (strip_prefix ''rue'' cs)
          else if c = CHR ''f'' then map_reading (Pair (JBool False)) (strip_prefix ''alse'' cs)
          else if c = CHR 0x22 then map_reading (\<lambda>(str, rest). (JStr str, rest)) (parse_string cs)
          else if c = CHR ''['' then
            (case skip_ws cs of
               [] \<Rightarrow> Syntax_error
             | d # rest \<Rightarrow>
                 if d = CHR '']'' then Got (JArr [], rest)
                 else map_reading (\<lambda>(xs, rest). (JArr xs, rest)) (parse_elements n cs))
          else if c = CHR ''{'' then
            (case skip_ws cs of
               [] \<Rightarrow> Syntax_error
             | d # rest \<Rightarrow>
                 if d = CHR ''}'' then Got (JObj [], rest)
                 else map_reading (\<lambda>(kvs, rest). (JObj (collect kvs), rest)) (parse_members n cs))
          else parse_number (c # cs))"
| "parse_elements 0 s = Unmodelled"
| "parse_elements (Suc n) s =
     (case parse_value n s of
        Got (v, r) \<Rightarrow>
          (case skip_ws r of
             [] \<Rightarrow> Syntax_error
           | d # rest \<Rightarrow>
               if d = CHR '','' then map_reading (\<lambda>(vs, rest'). (v # vs, rest')) (parse_elements n rest)
               else if d = CHR '']'' then Got ([v], rest)
               else Syntax_error)
      | Syntax_error \<Rightarrow> Syntax_error
      | Unmodelled \<Rightarrow> Unmodelled)"
| "parse_members 0 s = Unmodelled"
| "parse_members (Suc n) s =
     (case skip_ws s of
        [] \<Rightarrow> Syntax_error
      | q # cs \<Rightarrow>
          if q \<noteq> CHR 0x22 then Syntax_error
          else
            (case parse_string cs of
               Got (k, r) \<Rightarrow>
                 (case skip_ws r of
                    [] \<Rightarrow> Syntax_error
                  | colon # r1 \<Rightarrow>
                      if colon \<noteq> CHR '':'' then Syntax_error
                      else
                        (case parse_value n r1 of
                           Got (v, r2) \<Rightarrow>
                             (case skip_ws r2 of
                                [] \<Rightarrow> Syntax_error
                              | d # rest \<Rightarrow>
                                  if d = CHR '','' then
                                    map_reading (\<lambda>(kvs, rest'). ((k, v) # kvs, rest'))
                                      (parse_members n rest)
                                  else if d = CHR ''}'' then Got ([(k, v)], rest)
                                  else Syntax_error)
                         | Syntax_error \<Rightarrow> Syntax_error
                         | Unmodelled \<Rightarrow> Unmodelled))
             | Syntax_error \<Rightarrow> Syntax_error
             | Unmodelled \<Rightarrow> Unmodelled))"

text \<open>The whole text is one value, with white space around it; the length of the
  text is fuel enough for every text written by \<open>json_stringify2\<close> (lemma
  \<open>json_parse_stringify\<close> below).\<close>

definition json_parse :: "string \<Rightarrow> jsval reading" where
  "json_parse s =
     (case parse_value (length s) s of
        Got (v, rest) \<Rightarrow> if skip_ws rest = [] then Got v else Syntax_error
      | Syntax_error \<Rightarrow> Syntax_error
      | Unmodelled \<Rightarrow> Unmodelled)"

text \<open>A base64 text, decoded and parsed.\<close>

definition read_back :: "string \<Rightarrow> jsval reading" where
  "read_back s = (case base64_decode s of None \<Rightarrow> Unmodelled | Some t \<Rightarrow> json_parse t)"

text \<open>
  The values that \<^verbatim>\<open>JSON.parse\<close> yields and \<^verbatim>\<open>JSON.stringify\<close> writes back as they
  are: no \<^verbatim>\<open>undefined\<close> anywhere, finite numbers, and objects with distinct keys
  listed in the order of enumeration (one list for each object, whatever the order
  its properties were created in).
\<close>

fun wf_json :: "jsval \<Rightarrow> bool" where
  "wf_json JUndefined = False"
| "wf_json (JNum n) = (case n of Finite w \<Rightarrow> True | _ \<Rightarrow> False)"
| "wf_json (JArr xs) = list_all wf_json xs"
| "wf_json (JObj kvs) =
     (distinct (map fst kvs) \<and> enumeration_order kvs = kvs \<and> list_all (\<lambda>(k, v). wf_json v) kvs)"
| "wf_json v = True"

subsection \<open>Notions for the proof of the round trip\<close>

text \<open>The text of a value inside an array (\<^verbatim>\<open>undefined\<close> is written \<^verbatim>\<open>null\<close>), the
  text of a member, the indentation unit of \<open>json_stringify2\<close>, the fuel a value
  needs, and what may follow a number or start a value.\<close>

definition json_text :: "string \<Rightarrow> string \<Rightarrow> jsval \<Rightarrow> string" where
  "json_text gap ind v = (case json_ser gap ind v of None \<Rightarrow> ''null'' | Some s \<Rightarrow> s)"

definition gap2 :: string where
  "gap2 = ''  ''"

definition member_text :: "string \<Rightarrow> string \<times> jsval \<Rightarrow> string" where
  "member_text ind' kv = json_quote (fst kv) @ '': '' @ json_text gap2 ind' (snd kv)"

fun fuel :: "jsval \<Rightarrow> nat" where
  "fuel (JArr xs) = Suc (sum_list (map (\<lambda>x. Suc (fuel x)) xs))"
| "fuel (JObj kvs) = Suc (sum_list (map (\<lambda>(k, v). Suc (fuel v)) kvs))"
| "fuel v = 1"

definition ends_number :: "string \<Rightarrow> bool" where
  "ends_number rest =
     (case rest of [] \<Rightarrow> True
      | c # cs \<Rightarrow> \<not> digit c \<and> c \<noteq> CHR ''.'' \<and> c \<noteq> CHR ''e'' \<and> c \<noteq> CHR ''E'')"

definition value_start :: "char \<Rightarrow> bool" where
  "value_start c = (\<not> is_ws c \<and> c \<noteq> CHR '']'')"

section \<open>Notions used in the statements\<close>

text \<open>Every required field is there with a truthy value.\<close>

definition fields_present :: "jsval \<Rightarrow> bool" where
  "fields_present data = list_all (\<lambda>f. truthy (lookup data f)) required"

text \<open>The first required field, in the order of \<open>required\<close>, that is absent or
  falsy.\<close>

definition first_missing :: "jsval \<Rightarrow> string option" where
  "first_missing data = find (\<lambda>f. \<not> truthy (lookup data f)) required"

text \<open>A request that gets past validation and the configuration gate: method
  \<^verbatim>\<open>POST\<close>, all required fields, an id whose string matches the pattern, a
  configured token.\<close>

definition accepted :: "env \<Rightarrow> request \<Rightarrow> bool" where
  "accepted ev req =
     (req_method req = ''POST'' \<and> fields_present (req_body req)
      \<and> id_regex_test (lookup (req_body req) ''id'') = Inr True \<and> env_truthy (GITHUB_TOKEN ev))"

text \<open>The token and the repository the handler then works with (lines 32--33).\<close>

definition token_of :: "env \<Rightarrow> string" where
  "token_of ev = env_or (GITHUB_TOKEN ev) []"

definition repo_of :: "env \<Rightarrow> string" where
  "repo_of ev = env_or (GITHUB_REPO ev) default_repo"

text \<open>The fields of an object, and the value of the \<^verbatim>\<open>content\<close> property of a call's
  body.\<close>

fun fields :: "jsval \<Rightarrow> (string \<times> jsval) list" where
  "fields (JObj kvs) = kvs"
| "fields v = []"

definition content_of :: "fetch_call \<Rightarrow> jsval" where
  "content_of c = (case fetch_body c of None \<Rightarrow> JUndefined | Some b \<Rightarrow> lookup b ''content'')"

text \<open>The base64 of the text that \<^verbatim>\<open>JSON.stringify(v, null, 2)\<close> writes for \<open>v\<close>.\<close>

definition encoded :: "jsval \<Rightarrow> string" where
  "encoded v = base64_encode (json_text gap2 [] v)"

text \<open>
  The four calls as the source spells them, written out field by field: the write of
  a file through the content API, with its path, commit message and base64 content;
  the read of the index; and the write of the index, which carries the \<^verbatim>\<open>sha\<close> of
  the file it replaces when there is one.
\<close>

definition github_headers :: "string \<Rightarrow> (string \<times> string) list" where
  "github_headers token =
     [(''Authorization'', ''token '' @ token),
      (''Accept'', ''application/vnd.github.v3+json''),
      (''Content-Type'', ''application/json'')]"

definition file_write :: "string \<Rightarrow> string \<Rightarrow> string \<Rightarrow> string \<Rightarrow> string \<Rightarrow> fetch_call" where
  "file_write token repo path message content =
     \<lparr>fetch_url = ''https://api.github.com/repos/'' @ repo @ ''/contents/'' @ path,
      fetch_method = ''PUT'',
      fetch_headers = github_headers token,
      fetch_body = Some (JObj [(''message'', JStr message), (''content'', JStr content),
                               (''branch'', JStr ''main'')])\<rparr>"

definition source_write :: "string \<Rightarrow> string \<Rightarrow> string \<Rightarrow> string \<Rightarrow> string \<Rightarrow> fetch_call" where
  "source_write token repo pluginId cn_name code =
     file_write token repo (''plugins/'' @ pluginId @ ''/plugin.py'') (''Add plugin: '' @ cn_name)
       (base64_encode code)"

definition config_write :: "string \<Rightarrow> string \<Rightarrow> string \<Rightarrow> string \<Rightarrow> jsval \<Rightarrow> fetch_call" where
  "config_write token repo pluginId cn_name config =
     file_write token repo (''plugins/'' @ pluginId @ ''/config.json'')
       (''Add config for: '' @ cn_name) (encoded config)"

definition index_read :: "string \<Rightarrow> string \<Rightarrow> fetch_call" where
  "index_read token repo =
     \<lparr>fetch_url = ''https://api.github.com/repos/'' @ repo @ ''/contents/plugins.json'',
      fetch_method = ''GET'',
      fetch_headers = github_headers token,
      fetch_body = None\<rparr>"

definition index_write :: "string \<Rightarrow> string \<Rightarrow> string \<Rightarrow> jsval \<Rightarrow> jsval \<Rightarrow> fetch_call" where
  "index_write token repo cn_name index sha =
     \<lparr>fetch_url = ''https://api.github.com/repos/'' @ repo @ ''/contents/plugins.json'',
      fetch_method = ''PUT'',
      fetch_headers = github_headers token,
      fetch_body =
        Some (JObj ([(''message'', JStr (''Add plugin to list: '' @ cn_name)),
                     (''content'', JStr (encoded index)), (''branch'', JStr ''main'')]
                    @ (if truthy sha then [(''sha'', sha)] else [])))\<rparr>"

text \<open>The names of the fields of the config document, and the three fields the index
  entry adds.\<close>

definition config_fields :: "string list" where
  "config_fields =
     [''id'', ''name'', ''cn_name'', ''version'', ''author'', ''description'', ''full_description'',
      ''category'', ''keywords'', ''triggers'', ''features'', ''usage'', ''commands'', ''changelog'',
      ''notes'', ''featured'']"

definition index_only_fields :: "string list" where
  "index_only_fields = [''downloads'', ''rating'', ''download_url'']"

text \<open>
  The index entry in the words of the specification: the fields of the config
  document, plus \<^verbatim>\<open>downloads\<close> 0 and \<^verbatim>\<open>rating\<close> 5 (they stand before \<^verbatim>\<open>featured\<close>),
  plus a \<^verbatim>\<open>download_url\<close> made of the fixed base, the repository, \<^verbatim>\<open>/main/plugins/\<close>
  and the id.
\<close>

definition index_entry :: "string \<Rightarrow> string \<Rightarrow> jsval \<Rightarrow> jsval" where
  "index_entry repo pluginId config =
     JObj (concat (map (\<lambda>(k, v). if k = ''featured''
                                  then [(''downloads'', JNum (Finite 0)), (''rating'', JNum (Finite 5)), (k, v)]
                                  else [(k, v)])
                       (fields config))
           @ [(''download_url'',
               JStr (''https://raw.githubusercontent.com/'' @ repo @ ''/main/plugins/'' @ pluginId))])"

text \<open>The index \<open>JObj kvs\<close> with the entry appended to its plugins \<open>ps\<close> and with
  the date of the update.\<close>

definition with_entry :: "(string \<times> jsval) list \<Rightarrow> jsval list \<Rightarrow> jsval \<Rightarrow> string \<Rightarrow> jsval" where
  "with_entry kvs ps entry date =
     JObj (AList.update ''last_updated'' (JStr date)
             (AList.update ''plugins'' (JArr (ps @ [entry])) kvs))"

section \<open>Concrete runs\<close>

text \<open>
  A platform that answers the calls from a script, one result per call, and rejects
  when the script is over. Its \<^verbatim>\<open>Buffer.from\<close> turns an array of integers into
  bytes as Node does (each taken modulo 256), and its decoder of the index is the
  reader of this theory. What lies beyond that (an array with other elements, an
  array-like object, a content the reader does not get a value from) is not scripted
  and answered with an exception of that name; no run below gets there.
\<close>

definition not_scripted :: exn where
  "not_scripted = ''not scripted''"

fun byte_of :: "jsval \<Rightarrow> char option" where
  "byte_of (JNum (Finite w)) = Some (char_of (nat (sint w mod 256)))"
| "byte_of v = None"

definition bytes_of :: "jsval \<Rightarrow> exn + string" where
  "bytes_of v =
     (case v of
        JArr xs \<Rightarrow>
          if list_all (\<lambda>x. byte_of x \<noteq> None) xs
          then Inr (concat (map (\<lambda>x. case byte_of x of None \<Rightarrow> [] | Some c \<Rightarrow> [c]) xs))
          else Inl not_scripted
      | _ \<Rightarrow> Inl not_scripted)"

definition decoded_content :: "jsval \<Rightarrow> exn + jsval" where
  "decoded_content c =
     (case c of
        JStr s \<Rightarrow> (case read_back s of Got v \<Rightarrow> Inr v | _ \<Rightarrow> Inl not_scripted)
      | _ \<Rightarrow> Inl not_scripted)"

definition scripted :: "fetch_result list platform" where
  "scripted =
     \<lparr>fetch = (\<lambda>c w. case w of [] \<Rightarrow> (Rejected ''fetch failed'', []) | r # rs \<Rightarrow> (r, rs)),
      buffer_from_value = bytes_of,
      parse_content = decoded_content,
      today = ''2024-05-01''\<rparr>"

text \<open>A response with a JSON body: \<^verbatim>\<open>text()\<close> gives the text of the value,
  \<^verbatim>\<open>json()\<close> the value.\<close>

definition json_response :: "nat \<Rightarrow> jsval \<Rightarrow> response" where
  "json_response status v =
     \<lparr>http_status = status, body_text = Inr (json_text [] [] v), body_json = Inr v\<rparr>"

definition created :: fetch_result where
  "created = Resolved (json_response 201 (JObj [(''commit'', JObj [(''sha'', JStr ''7638417'')])]))"

definition unprocessable :: fetch_result where
  "unprocessable =
     Resolved (json_response 422 (JObj [(''message'', JStr ''Invalid request'')]))"

text \<open>A response whose status line arrives and whose body then fails to arrive.\<close>

definition cut_off :: fetch_result where
  "cut_off =
     Resolved \<lparr>http_status = 422, body_text = Inl ''terminated'', body_json = Inl ''terminated''\<rparr>"

definition not_found :: fetch_result where
  "not_found = Resolved (json_response 404 (JObj [(''message'', JStr ''Not Found'')]))"

definition index_with :: "string \<Rightarrow> jsval" where
  "index_with i =
     JObj [(''version'', JStr ''1.0.0''), (''last_updated'', JStr ''2024-01-01''),
           (''plugins'', JArr [JObj [(''id'', JStr i)]])]"

text \<open>The answer to the read of an index file that holds \<open>index_with i\<close>.\<close>

definition index_file :: "string \<Rightarrow> fetch_result" where
  "index_file i =
     Resolved (json_response 200
       (JObj [(''content'', JStr (encoded (index_with i))), (''sha'', JStr ''abc123'')]))"

definition sample_env :: env where
  "sample_env = \<lparr>GITHUB_TOKEN = Some ''t0k'', GITHUB_REPO = None\<rparr>"

definition no_token_env :: env where
  "no_token_env = \<lparr>GITHUB_TOKEN = None, GITHUB_REPO = Some ''me/plugins''\<rparr>"

definition submission :: "string \<Rightarrow> jsval" where
  "submission i =
     JObj [(''id'', JStr i), (''cn_name'', JStr ''Test''), (''author'', JStr ''me''),
           (''description'', JStr ''demo''), (''code'', JStr ''print(1)'')]"

definition post :: "jsval \<Rightarrow> request" where
  "post b = \<lparr>req_method = ''POST'', req_body = b\<rparr>"

text \<open>A submission whose \<^verbatim>\<open>id\<close> is the object \<^verbatim>\<open>{"toString": 1}\<close>, and one whose
  \<^verbatim>\<open>cn_name\<close> is \<^verbatim>\<open>Infinity\<close> (the JSON text \<^verbatim>\<open>1e999\<close>).\<close>

definition odd_id_submission :: jsval where
  "odd_id_submission =
     JObj [(''id'', JObj [(''toString'', JNum (Finite 1))]), (''cn_name'', JStr ''Test''),
           (''author'', JStr ''me''), (''description'', JStr ''demo''), (''code'', JStr ''print(1)'')]"


section \<open>Auxiliary facts\<close>

subsection \<open>The regular expression and the pattern in words\<close>

lemma full_match_Alt: "full_match (Alt r s) w = (full_match r w \<or> full_match s w)"
  by (induction w arbitrary: r s) auto

lemma full_match_Never_Seq: "full_match (Seq Never r) w = False"
  by (induction w) auto

lemma single_range: "in_range lo lo c = (c = lo)"
proof -
  have "((of_char c :: nat) = of_char lo) = (c = lo)" by (rule of_char_eq_iff)
  then show ?thesis unfolding in_range_def by auto
qed

lemma full_match_tail:
  "full_match
     (Seq Empty (Star (Class [(CHR ''a'', CHR ''z''), (CHR ''0'', CHR ''9''), (CHR ''_'', CHR ''_'')]))) w
     = list_all (\<lambda>x. lowercase x \<or> digit x \<or> x = CHR ''_'') w"
  by (induction w)
    (auto simp: full_match_Alt full_match_Never_Seq in_class_def lowercase_def digit_def
      single_range)

lemma id_pattern_spec: "full_match id_pattern s = id_spec s"
  by (cases s)
    (auto simp: id_pattern_def in_class_def lowercase_def full_match_tail full_match_Never_Seq)

subsection \<open>Validation\<close>

lemma get_prop_lookup: "v \<noteq> JUndefined \<Longrightarrow> v \<noteq> JNull \<Longrightarrow> get_prop v k = Inr (lookup v k)"
  by (cases v) auto

lemma truthy_lookup_defined: "truthy (lookup data f) \<Longrightarrow> data \<noteq> JUndefined \<and> data \<noteq> JNull"
  by (cases data) auto

lemma check_required_find:
  "data \<noteq> JUndefined \<Longrightarrow> data \<noteq> JNull \<Longrightarrow>
     check_required data fs = Inr (find (\<lambda>f. \<not> truthy (lookup data f)) fs)"
  by (induction fs) (auto simp: get_prop_lookup)

lemma check_required_present:
  assumes "fields_present data"
  shows "check_required data required = Inr None"
proof -
  from assms have "truthy (lookup data ''id'')"
    by (simp add: fields_present_def required_def)
  then have d: "data \<noteq> JUndefined \<and> data \<noteq> JNull"
    by (rule truthy_lookup_defined)
  have "find (\<lambda>f. \<not> truthy (lookup data f)) required = None"
    using assms by (simp add: fields_present_def find_None_iff list_all_iff)
  with d show ?thesis by (simp add: check_required_find)
qed

lemma accepted_id:
  assumes "accepted ev req"
  obtains pluginId where "to_string (lookup (req_body req) ''id'') = Inr pluginId"
    and "id_spec pluginId"
  using assms
  by (auto simp: accepted_def id_regex_test_def id_pattern_spec split: sum.splits)

lemma try_block_accepted:
  "accepted ev req \<Longrightarrow>
     try_block pf ev (req_body req) w = upload_plugin pf (token_of ev) (repo_of ev) (req_body req) w"
  by (simp add: accepted_def try_block_def check_required_present token_of_def repo_of_def)

lemma handler_accepted:
  "accepted ev req \<Longrightarrow>
     handler pf ev req w = respond (upload_plugin pf (token_of ev) (repo_of ev) (req_body req) w)"
  by (simp add: handler_def try_block_accepted) (simp add: accepted_def)

subsection \<open>The stages after validation\<close>

text \<open>The calls the handler builds are the calls as the source spells them, once the
  conversions to strings have gone through.\<close>

lemma encode_json_obj: "encode_json (JObj kvs) = Inr (encoded (JObj kvs))"
  by (simp add: encode_json_def encoded_def json_stringify2_def json_text_def gap2_def)

lemma encode_json_config: "encode_json (config_content data) = Inr (encoded (config_content data))"
  by (simp add: config_content_def Let_def encode_json_obj)

lemma plugin_call_source:
  assumes "to_string (lookup data ''id'') = Inr pluginId"
    and "to_string (lookup data ''cn_name'') = Inr cn_name"
    and "buffer_from pf (lookup data ''code'') = Inr code"
  shows "plugin_call pf token repo data = Inr (source_write token repo pluginId cn_name code)"
  using assms
  by (simp add: plugin_call_def plugin_path_def commit_message_def source_write_def file_write_def
      put_call_def contents_url_def api_headers_def github_headers_def upload_data_def)

lemma config_call_write:
  assumes "to_string (lookup data ''id'') = Inr pluginId"
    and "to_string (lookup data ''cn_name'') = Inr cn_name"
  shows "config_call token repo data
           = Inr (config_write token repo pluginId cn_name (config_content data))"
  using assms
  by (simp add: config_call_def config_path_def commit_message_def config_write_def file_write_def
      put_call_def contents_url_def api_headers_def github_headers_def upload_data_def
      encode_json_config)

lemma index_write_call_write:
  assumes "to_string (lookup data ''cn_name'') = Inr cn_name"
  shows "index_write_call token repo data (JObj kvs) sha
           = Inr (index_write token repo cn_name (JObj kvs) sha)"
  using assms
  by (simp add: index_write_call_def commit_message_def index_write_def put_call_def
      contents_url_def api_headers_def github_headers_def update_data_def upload_data_def
      encode_json_obj)

lemma index_read_call_read: "index_read_call token repo = index_read token repo"
  by (simp add: index_read_call_def index_read_def get_call_def contents_url_def api_headers_def
      github_headers_def)

lemma new_plugin_entry:
  assumes "to_string (lookup data ''id'') = Inr pluginId"
  shows "new_plugin repo data = Inr (index_entry repo pluginId (config_content data))"
  using assms
  by (simp add: new_plugin_def index_entry_def config_content_def Let_def raw_base_def)

lemma success_body_message:
  assumes "to_string (lookup data ''cn_name'') = Inr cn_name"
  shows "success_body data
           = Inr (JObj [(''success'', JBool True), (''message'', JStr (msg_submitted cn_name))])"
  using assms by (simp add: success_body_def)

lemma upload_plugin_ok:
  assumes "to_string (lookup data ''id'') = Inr pluginId"
    and "to_string (lookup data ''cn_name'') = Inr cn_name"
    and "buffer_from pf (lookup data ''code'') = Inr code"
    and "fetch pf (source_write token repo pluginId cn_name code) w = (Resolved r, w1)" and "ok r"
  shows "upload_plugin pf token repo data w
           = upload_config pf token repo data [source_write token repo pluginId cn_name code] w1"
  using assms by (simp add: upload_plugin_def plugin_call_source)

lemma upload_config_ok:
  assumes "to_string (lookup data ''id'') = Inr pluginId"
    and "to_string (lookup data ''cn_name'') = Inr cn_name"
    and "fetch pf (config_write token repo pluginId cn_name (config_content data)) w
           = (Resolved r, w1)"
    and "ok r"
  shows "upload_config pf token repo data calls w =
     update_index pf token repo data
       (calls @ [config_write token repo pluginId cn_name (config_content data)]) w1"
  using assms by (simp add: upload_config_def config_call_write)

lemma map_ids_array: "map_ids v = Inr ids \<Longrightarrow> \<exists>ps. v = JArr ps"
  by (cases v) auto

lemma get_prop_array: "get_prop v k = Inr (JArr ps) \<Longrightarrow> \<exists>kvs. v = JObj kvs \<and> map_of kvs k = Some (JArr ps)"
  by (cases v) (auto split: option.splits)

text \<open>The index after the update, as the source builds it and as \<open>with_entry\<close>
  spells it.\<close>

lemma updated_index_with_entry:
  assumes "map_of kvs ''plugins'' = Some (JArr ps)"
  shows "updated_index d (JObj kvs) (JArr ps) e = with_entry kvs ps e d"
  by (simp add: updated_index_def with_entry_def)

subsection \<open>Base64 read back\<close>

lemma index_of_nth: "distinct xs \<Longrightarrow> n < length xs \<Longrightarrow> index_of (xs ! n) xs = Some n"
proof (induction xs arbitrary: n)
  case Nil
  then show ?case by simp
next
  case (Cons x xs)
  show ?case
  proof (cases n)
    case 0
    then show ?thesis by simp
  next
    case (Suc m)
    with Cons.prems have "xs ! m \<noteq> x" and "m < length xs" by auto
    with Cons.IH [of m] Cons.prems Suc show ?thesis by simp
  qed
qed

lemma distinct_b64_alphabet: "distinct b64_alphabet"
  by (simp add: b64_alphabet_def)

lemma length_b64_alphabet: "length b64_alphabet = 64"
  by (simp add: b64_alphabet_def)

lemma b64_value_char: "n < 64 \<Longrightarrow> b64_value (b64_char n) = Some n"
  by (simp add: b64_value_def b64_char_def index_of_nth distinct_b64_alphabet length_b64_alphabet)

lemma b64_char_not_pad: "n < 64 \<Longrightarrow> b64_char n \<noteq> CHR ''=''"
proof -
  assume "n < 64"
  then have "b64_char n \<in> set b64_alphabet"
    by (simp add: b64_char_def length_b64_alphabet)
  moreover have "CHR ''='' \<notin> set b64_alphabet" by (simp add: b64_alphabet_def)
  ultimately show ?thesis by auto
qed

lemma b64_value_pad: "b64_value CHR ''='' = None"
  by (simp add: b64_value_def b64_alphabet_def)

lemma base64_values_bytes:
  "list_all (\<lambda>b. b < 256) bs \<Longrightarrow> base64_values (base64_bytes bs) = Some bs"
proof (induction bs rule: base64_bytes.induct)
  case 1
  then show ?case by simp
next
  case (2 a)
  then have a: "a < 256" by simp
  have "a div 4 < 64" "(a mod 4) * 16 < 64" using a by auto
  then show ?case by (simp add: b64_value_char)
next
  case (3 a b)
  then have ab: "a < 256" "b < 256" by simp_all
  have "a div 4 < 64" "(a mod 4) * 16 + b div 16 < 64" "(b mod 16) * 4 < 64" using ab by auto
  moreover have "b div 16 div 16 = 0" "b div 16 mod 16 * 16 + b mod 16 = b" using ab by auto
  ultimately show ?case by (simp add: b64_value_char b64_char_not_pad)
next
  case (4 a b c rest)
  then have abc: "a < 256" "b < 256" "c < 256" and r: "list_all (\<lambda>b. b < 256) rest" by simp_all
  have "a div 4 < 64" "(a mod 4) * 16 + b div 16 < 64" "(b mod 16) * 4 + c div 64 < 64" "c mod 64 < 64"
    using abc by auto
  moreover have "b div 16 div 16 = 0" "b div 16 mod 16 * 16 + (b mod 16 + c div 64 div 4) = b"
    "c div 64 mod 4 * 64 + c mod 64 = c"
    using abc by auto
  ultimately show ?case using 4 r by (simp add: b64_value_char b64_char_not_pad)
qed

lemma base64_roundtrip: "base64_decode (base64_encode s) = Some s"
proof -
  have "list_all (\<lambda>b. b < 256) (map of_char s :: nat list)" by (simp add: list_all_iff)
  then show ?thesis
    by (simp add: base64_decode_def base64_encode_def base64_values_bytes comp_def)
qed

subsection \<open>Strings and numbers read back\<close>

lemma skip_ws_pre: "list_all is_ws pre \<Longrightarrow> \<not> is_ws c \<Longrightarrow> skip_ws (pre @ c # s) = c # s"
  by (induction pre) (auto simp: skip_ws_def)

lemma hex_value_char: "k < 16 \<Longrightarrow> hex_value (hex_char k) = Some k"
  by (auto simp: hex_value_def hex_char_def in_range_def)

lemma hex4_control:
  "n < 32 \<Longrightarrow> hex4_value CHR ''0'' CHR ''0'' (hex_char (n div 16)) (hex_char (n mod 16)) = Some n"
proof -
  assume "n < 32"
  then have "n div 16 < 16" "n mod 16 < 16" by auto
  then have "hex_value (hex_char (n div 16)) = Some (n div 16)"
    "hex_value (hex_char (n mod 16)) = Some (n mod 16)"
    by (simp_all add: hex_value_char)
  moreover have "hex_value CHR ''0'' = Some 0" by (simp add: hex_value_def in_range_def)
  ultimately show ?thesis by (simp add: hex4_value_def)
qed

lemma parse_string_char:
  "parse_string (quote_char c @ s) = map_reading (\<lambda>(t, rest). (c # t, rest)) (parse_string s)"
proof -
  consider (named) "c = CHR 0x22 \<or> c = CHR 0x5C \<or> c = CHR 0x08 \<or> c = CHR 0x0C \<or> c = CHR 0x0A
      \<or> c = CHR 0x0D \<or> c = CHR 0x09"
    | (control) "\<not> (c = CHR 0x22 \<or> c = CHR 0x5C \<or> c = CHR 0x08 \<or> c = CHR 0x0C \<or> c = CHR 0x0A
      \<or> c = CHR 0x0D \<or> c = CHR 0x09)" "(of_char c :: nat) < 0x20"
    | (plain) "\<not> (c = CHR 0x22 \<or> c = CHR 0x5C \<or> c = CHR 0x08 \<or> c = CHR 0x0C \<or> c = CHR 0x0A
      \<or> c = CHR 0x0D \<or> c = CHR 0x09)" "\<not> (of_char c :: nat) < 0x20"
    by blast
  then show ?thesis
  proof cases
    case named
    then show ?thesis by (auto simp: quote_char_def unescape_def)
  next
    case control
    from control(2) have "utf8 (of_char c) = Some [c]" by (simp add: utf8_def)
    with control hex4_control [of "of_char c"] show ?thesis
      by (simp add: quote_char_def)
  next
    case plain
    then show ?thesis by (simp add: quote_char_def)
  qed
qed

lemma parse_string_quoted:
  "parse_string (concat (map quote_char s) @ CHR 0x22 # rest) = Got (s, rest)"
  by (induction s) (simp_all add: parse_string_char)

lemma digit_digit_char: "d < 10 \<Longrightarrow> digit (digit_char d)"
  by (simp add: digit_def in_range_def digit_char_def)

lemma digit_value_char: "d < 10 \<Longrightarrow> digit_value (digit_char d) = d"
  by (simp add: digit_value_def digit_char_def)

lemma digit_char_zero: "d < 10 \<Longrightarrow> (digit_char d = CHR ''0'') = (d = 0)"
proof -
  assume "d < 10"
  have "(digit_char d = CHR ''0'') = ((of_char (digit_char d) :: nat) = of_char (CHR ''0''))"
    by (simp only: of_char_eq_iff)
  also have "\<dots> = (d = 0)" using \<open>d < 10\<close> by (simp add: digit_char_def)
  finally show ?thesis .
qed

lemma dec_nat_digits: "list_all digit (dec_nat n)"
proof (induction n rule: dec_nat.induct)
  case (1 n)
  then show ?case by (subst dec_nat.simps) (simp add: digit_digit_char)
qed

lemma dec_nat_nonempty: "dec_nat n \<noteq> []"
  by (subst dec_nat.simps) simp

lemma digits_value_snoc: "digits_value (ds @ [c]) = digits_value ds * 10 + digit_value c"
  by (simp add: digits_value_def)

lemma digits_value_dec_nat: "digits_value (dec_nat n) = n"
proof (induction n rule: dec_nat.induct)
  case (1 n)
  show ?case
  proof (cases "n < 10")
    case True
    then show ?thesis
      by (subst dec_nat.simps) (simp add: digits_value_def digit_value_char)
  next
    case False
    with 1 show ?thesis
      by (subst dec_nat.simps) (simp add: digits_value_snoc digit_value_char)
  qed
qed

lemma hd_dec_nat: "0 < n \<Longrightarrow> hd (dec_nat n) \<noteq> CHR ''0''"
proof (induction n rule: dec_nat.induct)
  case (1 n)
  show ?case
  proof (cases "n < 10")
    case True
    with 1 show ?thesis by (subst dec_nat.simps) (simp add: digit_char_zero)
  next
    case False
    then have "0 < n div 10" by simp
    with 1 False have "hd (dec_nat (n div 10)) \<noteq> CHR ''0''" by simp
    with False show ?thesis by (subst dec_nat.simps) (simp add: dec_nat_nonempty)
  qed
qed

lemma dec_nat_zero: "dec_nat 0 = ''0''"
  using digit_char_zero [of 0] by (subst dec_nat.simps) simp

lemma tl_dec_nat: "hd (dec_nat n) = CHR ''0'' \<Longrightarrow> tl (dec_nat n) = []"
proof (cases "n = 0")
  case True
  then show ?thesis by (simp add: dec_nat_zero)
next
  case False
  assume "hd (dec_nat n) = CHR ''0''"
  with False hd_dec_nat [of n] show ?thesis by simp
qed

lemma ends_number_split:
  assumes "list_all digit ds" and "ends_number rest"
  shows "takeWhile digit (ds @ rest) = ds" and "dropWhile digit (ds @ rest) = rest"
    and "\<not> number_goes_on rest"
  using assms
  by (auto simp: ends_number_def number_goes_on_def list_all_iff takeWhile_append dropWhile_append
      split: list.splits)

lemma parse_digits_dec_nat:
  "ends_number rest \<Longrightarrow> parse_digits (dec_nat n @ rest) = Got (n, rest)"
  using ends_number_split [where ds = "dec_nat n" and rest = rest, OF dec_nat_digits]
  by (simp add: parse_digits_def Let_def dec_nat_nonempty tl_dec_nat digits_value_dec_nat)

lemma parse_integer_dec_int:
  assumes "ends_number rest"
  shows "parse_integer (dec_int i @ rest) = Got (i, rest)"
proof (cases "i < 0")
  case True
  then show ?thesis
    using parse_digits_dec_nat [OF assms, of "nat (- i)"]
    by (simp add: parse_integer_def dec_int_def)
next
  case False
  obtain c cs where cs: "dec_nat (nat i) = c # cs"
    using dec_nat_nonempty [of "nat i"] by (cases "dec_nat (nat i)") auto
  have "digit c" using dec_nat_digits [of "nat i"] cs by simp
  then have "c \<noteq> CHR ''-''" by (auto simp: digit_def in_range_def)
  with False cs parse_digits_dec_nat [OF assms, of "nat i"] show ?thesis
    by (simp add: parse_integer_def dec_int_def)
qed

lemma sint_54_range: "- (2 ^ 53) \<le> sint (w :: 54 word) \<and> sint w < 2 ^ 53"
  using sint_ge [of w] sint_lt [of w] by simp

lemma parse_number_finite:
  assumes "ends_number rest"
  shows "parse_number (number_string (Finite w) @ rest) = Got (JNum (Finite w), rest)"
  using sint_54_range [of w]
  by (simp add: parse_number_def parse_integer_dec_int [OF assms])

subsection \<open>Values read back\<close>

lemma ws_gap2: "list_all is_ws gap2"
  by (simp add: gap2_def is_ws_def)

lemma json_ser_None: "(json_ser gap ind v = None) = (v = JUndefined)"
  by (cases v) simp_all

lemma json_text_simps:
  "json_text gap ind JNull = ''null''"
  "json_text gap ind (JBool b) = (if b then ''true'' else ''false'')"
  "json_text gap ind (JNum (Finite w)) = dec_int (sint w)"
  "json_text gap ind (JStr s) = json_quote s"
  by (simp_all add: json_text_def)

lemma json_text_arr:
  "json_text gap ind (JArr xs) = wrap_items gap ind ''['' '']'' (map (json_text gap (ind @ gap)) xs)"
proof -
  have "(\<lambda>x. case json_ser gap (ind @ gap) x of None \<Rightarrow> ''null'' | Some s \<Rightarrow> s)
          = json_text gap (ind @ gap)"
    by (simp add: fun_eq_iff json_text_def)
  then show ?thesis by (simp add: json_text_def)
qed

lemma wf_json_defined: "wf_json v \<Longrightarrow> v \<noteq> JUndefined"
  by (cases v) auto

lemma member_texts:
  "list_all (\<lambda>(k, v). v \<noteq> JUndefined) kvs \<Longrightarrow>
     concat (map (\<lambda>(k, v). case json_ser gap ind v of
                      None \<Rightarrow> []
                    | Some s \<Rightarrow> [(k, json_quote k @ '':'' @ (if gap = [] then [] else '' '') @ s)]) kvs)
     = map (\<lambda>(k, v). (k, json_quote k @ '':'' @ (if gap = [] then [] else '' '') @ json_text gap ind v)) kvs"
  by (induction kvs) (auto simp: json_text_def json_ser_None split: option.splits)

text \<open>The order of enumeration looks at the keys only.\<close>

lemma enumeration_order_Nil [simp]: "enumeration_order [] = []"
  by (simp add: enumeration_order_def)

lemma insort_index_key_map:
  "insort_key index_key (fst x, h x) (map (\<lambda>kv. (fst kv, h kv)) xs)
     = map (\<lambda>kv. (fst kv, h kv)) (insort_key index_key x xs)"
  by (induction xs) (simp_all add: index_key_def)

lemma sort_index_key_map:
  "sort_key index_key (map (\<lambda>kv. (fst kv, h kv)) xs)
     = map (\<lambda>kv. (fst kv, h kv)) (sort_key index_key xs)"
  by (induction xs) (simp_all add: insort_index_key_map)

lemma enumeration_order_map:
  "enumeration_order (map (\<lambda>kv. (fst kv, h kv)) kvs)
     = map (\<lambda>kv. (fst kv, h kv)) (enumeration_order kvs)"
proof -
  have "filter is_index (map (\<lambda>kv. (fst kv, h kv)) kvs)
          = map (\<lambda>kv. (fst kv, h kv)) (filter is_index kvs)"
    by (induction kvs) (simp_all add: is_index_def)
  moreover have "filter (\<lambda>kv. \<not> is_index kv) (map (\<lambda>kv. (fst kv, h kv)) kvs)
          = map (\<lambda>kv. (fst kv, h kv)) (filter (\<lambda>kv. \<not> is_index kv) kvs)"
    by (induction kvs) (simp_all add: is_index_def)
  ultimately show ?thesis by (simp add: enumeration_order_def sort_index_key_map)
qed

lemma json_text_obj:
  assumes "list_all (\<lambda>(k, v). v \<noteq> JUndefined) kvs" and "enumeration_order kvs = kvs"
  shows "json_text gap2 ind (JObj kvs) =
     wrap_items gap2 ind ''{'' ''}''
       (map (\<lambda>(k, v). json_quote k @ '': '' @ json_text gap2 (ind @ gap2) v) kvs)"
proof -
  let ?h = "\<lambda>kv. json_quote (fst kv) @ '':'' @ (if gap2 = [] then [] else '' '')
                   @ json_text gap2 (ind @ gap2) (snd kv)"
  from assms(1) have "concat (map (\<lambda>(k, v). case json_ser gap2 (ind @ gap2) v of
                      None \<Rightarrow> []
                    | Some s \<Rightarrow> [(k, json_quote k @ '':'' @ (if gap2 = [] then [] else '' '') @ s)]) kvs)
               = map (\<lambda>kv. (fst kv, ?h kv)) kvs"
    by (simp add: member_texts case_prod_beta)
  moreover have "enumeration_order (map (\<lambda>kv. (fst kv, ?h kv)) kvs) = map (\<lambda>kv. (fst kv, ?h kv)) kvs"
    using assms(2) by (simp add: enumeration_order_map)
  ultimately have "json_text gap2 ind (JObj kvs)
      = wrap_items gap2 ind ''{'' ''}'' (map snd (map (\<lambda>kv. (fst kv, ?h kv)) kvs))"
    by (simp add: json_text_def)
  then show ?thesis by (simp add: gap2_def split_def comp_def)
qed

lemma dec_int_start: "\<exists>c cs. dec_int i = c # cs \<and> (c = CHR ''-'' \<or> digit c)"
proof -
  obtain c cs where cs: "dec_nat (nat \<bar>i\<bar>) = c # cs"
    using dec_nat_nonempty [of "nat \<bar>i\<bar>"] by (cases "dec_nat (nat \<bar>i\<bar>)") auto
  have "digit c" using dec_nat_digits [of "nat \<bar>i\<bar>"] cs by simp
  with cs show ?thesis by (cases "i < 0") (auto simp: dec_int_def abs_if)
qed

lemma digit_start: "digit c \<Longrightarrow> value_start c"
  by (auto simp: digit_def in_range_def value_start_def is_ws_def)

lemma wrap_items_start: "\<exists>cs. wrap_items gap ind [c] cls items = c # cs"
  by (simp add: wrap_items_def)

lemma json_text_start:
  "v \<noteq> JUndefined \<Longrightarrow> \<exists>c cs. json_text gap ind v = c # cs \<and> value_start c"
proof (cases v)
  case (JNum n)
  show ?thesis
  proof (cases n)
    case (Finite w)
    with JNum show ?thesis
      using dec_int_start [of "sint w"] digit_start
      by (auto simp: json_text_simps value_start_def is_ws_def)
  qed (use JNum in \<open>simp_all add: json_text_def value_start_def is_ws_def\<close>)
next
  case (JArr xs)
  then show ?thesis
    using wrap_items_start [of gap ind "CHR ''[''" "'']''" "map (json_text gap (ind @ gap)) xs"]
    by (auto simp: json_text_arr value_start_def is_ws_def)
next
  case (JObj kvs)
  obtain items where "json_ser gap ind (JObj kvs) = Some (wrap_items gap ind ''{'' ''}'' items)"
    by simp
  then show ?thesis
    using JObj wrap_items_start [of gap ind "CHR ''{''" "''}''" items]
    by (auto simp: json_text_def value_start_def is_ws_def)
qed (auto simp: json_text_simps json_quote_def value_start_def is_ws_def)

lemma skip_ws_start: "\<not> is_ws c \<Longrightarrow> skip_ws (c # s) = c # s"
  by (simp add: skip_ws_def)

lemma ws_newline: "list_all is_ws newline"
  by (simp add: newline_def is_ws_def)

lemma ends_number_simps:
  "ends_number (CHR '','' # s)" "ends_number (newline @ s)" "ends_number []"
  by (simp_all add: ends_number_def newline_def digit_def in_range_def)

lemma join_with_Cons:
  "join_with sep (t # ts) = t @ (if ts = [] then [] else sep @ join_with sep ts)"
  by (cases ts) simp_all

lemma fuel_pos: "0 < fuel v"
  by (cases v) simp_all

lemma parse_elements_texts:
  assumes "\<And>x pre rest n. x \<in> set xs \<Longrightarrow> list_all is_ws pre \<Longrightarrow> ends_number rest \<Longrightarrow> fuel x \<le> n
             \<Longrightarrow> parse_value n (pre @ json_text gap2 ind' x @ rest) = Got (x, rest)"
    and "xs \<noteq> []" and "list_all is_ws pre" and "list_all is_ws ind" and "list_all is_ws ind'"
    and "sum_list (map (\<lambda>x. Suc (fuel x)) xs) \<le> n"
  shows "parse_elements n
           (pre @ join_with ('','' @ newline @ ind') (map (json_text gap2 ind') xs)
              @ newline @ ind @ '']'' @ rest) = Got (xs, rest)"
  using assms
proof (induction xs arbitrary: pre n)
  case Nil
  then show ?case by simp
next
  case (Cons x xs)
  from Cons.prems(6) obtain m where n: "n = Suc m" and fx: "fuel x \<le> m"
    and fxs: "sum_list (map (\<lambda>x. Suc (fuel x)) xs) \<le> m"
    by (cases n) auto
  let ?t = "json_text gap2 ind' x"
  show ?case
  proof (cases "xs = []")
    case True
    let ?after = "newline @ ind @ '']'' @ rest"
    have "parse_value m (pre @ ?t @ ?after) = Got (x, ?after)"
      using Cons.prems(1) [of x pre ?after m] Cons.prems(3) fx by (simp add: ends_number_simps)
    moreover have "skip_ws ?after = CHR '']'' # rest"
      using skip_ws_pre [of "newline @ ind" "CHR '']''" rest] Cons.prems(4) ws_newline
      by (simp add: is_ws_def)
    ultimately show ?thesis using True n by simp
  next
    case False
    let ?tail = "join_with ('','' @ newline @ ind') (map (json_text gap2 ind') xs)
                   @ newline @ ind @ '']'' @ rest"
    let ?after = "CHR '','' # (newline @ ind') @ ?tail"
    have "parse_value m (pre @ ?t @ ?after) = Got (x, ?after)"
      using Cons.prems(1) [of x pre ?after m] Cons.prems(3) fx by (simp add: ends_number_simps)
    moreover have "skip_ws ?after = ?after"
      by (rule skip_ws_start) (simp add: is_ws_def)
    moreover have "parse_elements m ((newline @ ind') @ ?tail) = Got (xs, rest)"
    proof (rule Cons.IH)
      show "xs \<noteq> []" by (rule False)
      show "list_all is_ws (newline @ ind')" using Cons.prems(5) ws_newline by simp
      show "list_all is_ws ind" by (rule Cons.prems(4))
      show "list_all is_ws ind'" by (rule Cons.prems(5))
      show "sum_list (map (\<lambda>x. Suc (fuel x)) xs) \<le> m" by (rule fxs)
      show "\<And>x pre rest n. x \<in> set xs \<Longrightarrow> list_all is_ws pre \<Longrightarrow> ends_number rest \<Longrightarrow> fuel x \<le> n
             \<Longrightarrow> parse_value n (pre @ json_text gap2 ind' x @ rest) = Got (x, rest)"
        using Cons.prems(1) by simp
    qed
    ultimately show ?thesis using False n by (simp add: join_with_Cons)
  qed
qed

lemma parse_members_texts:
  assumes "\<And>k v pre rest n. (k, v) \<in> set kvs \<Longrightarrow> list_all is_ws pre \<Longrightarrow> ends_number rest \<Longrightarrow> fuel v \<le> n
             \<Longrightarrow> parse_value n (pre @ json_text gap2 ind' v @ rest) = Got (v, rest)"
    and "kvs \<noteq> []" and "list_all is_ws pre" and "list_all is_ws ind" and "list_all is_ws ind'"
    and "sum_list (map (\<lambda>(k, v). Suc (fuel v)) kvs) \<le> n"
  shows "parse_members n
           (pre @ join_with ('','' @ newline @ ind') (map (member_text ind') kvs)
              @ newline @ ind @ ''}'' @ rest) = Got (kvs, rest)"
  using assms
proof (induction kvs arbitrary: pre n)
  case Nil
  then show ?case by simp
next
  case (Cons kv kvs)
  obtain k v where kv: "kv = (k, v)" by (cases kv)
  from Cons.prems(6) kv obtain m where n: "n = Suc m" and fx: "fuel v \<le> m"
    and fxs: "sum_list (map (\<lambda>(k, v). Suc (fuel v)) kvs) \<le> m"
    by (cases n) auto
  let ?t = "json_text gap2 ind' v"
  have start: "\<And>after. skip_ws (pre @ member_text ind' kv @ after)
                 = CHR 0x22 # concat (map quote_char k) @ CHR 0x22 # '': '' @ ?t @ after"
    using skip_ws_pre [of pre "CHR 0x22"] Cons.prems(3)
    by (simp add: member_text_def kv json_quote_def is_ws_def)
  have name: "\<And>after. parse_string (concat (map quote_char k) @ CHR 0x22 # '': '' @ ?t @ after)
                 = Got (k, '': '' @ ?t @ after)"
    by (rule parse_string_quoted)
  have colon: "\<And>after. skip_ws ('': '' @ ?t @ after) = CHR '':'' # '' '' @ ?t @ after"
    by (simp add: skip_ws_def is_ws_def)
  have val: "\<And>after. ends_number after \<Longrightarrow> parse_value m ('' '' @ ?t @ after) = Got (v, after)"
    using Cons.prems(1) [of k v "'' ''" _ m] fx kv by (simp add: is_ws_def)
  show ?case
  proof (cases "kvs = []")
    case True
    let ?after = "newline @ ind @ ''}'' @ rest"
    have "skip_ws ?after = CHR ''}'' # rest"
      using skip_ws_pre [of "newline @ ind" "CHR ''}''" rest] Cons.prems(4) ws_newline
      by (simp add: is_ws_def)
    with start [of ?after] name [of ?after] colon [of ?after] val [of ?after] True n kv
    show ?thesis by (simp add: ends_number_simps)
  next
    case False
    let ?tail = "join_with ('','' @ newline @ ind') (map (member_text ind') kvs)
                   @ newline @ ind @ ''}'' @ rest"
    let ?after = "CHR '','' # (newline @ ind') @ ?tail"
    have "skip_ws ?after = ?after"
      by (rule skip_ws_start) (simp add: is_ws_def)
    moreover have "parse_members m ((newline @ ind') @ ?tail) = Got (kvs, rest)"
    proof (rule Cons.IH)
      show "kvs \<noteq> []" by (rule False)
      show "list_all is_ws (newline @ ind')" using Cons.prems(5) ws_newline by simp
      show "list_all is_ws ind" by (rule Cons.prems(4))
      show "list_all is_ws ind'" by (rule Cons.prems(5))
      show "sum_list (map (\<lambda>(k, v). Suc (fuel v)) kvs) \<le> m" by (rule fxs)
      show "parse_value n (pre @ json_text gap2 ind' v @ rest) = Got (v, rest)"
        if "(k, v) \<in> set kvs" "list_all is_ws pre" "ends_number rest" "fuel v \<le> n"
        for k v pre rest n
        using that Cons.prems(1) [of k v pre rest n] by simp
    qed
    ultimately show ?thesis
      using start [of ?after] name [of ?after] colon [of ?after] val [of ?after] False n kv
      by (simp add: join_with_Cons ends_number_simps)
  qed
qed

lemma update_fresh: "k \<notin> fst ` set al \<Longrightarrow> AList.update k v al = al @ [(k, v)]"
  by (induction al) auto

lemma collect_append:
  "distinct (map fst (acc @ kvs)) \<Longrightarrow>
     foldl (\<lambda>acc (k, v). AList.update k v acc) acc kvs = acc @ kvs"
proof (induction kvs arbitrary: acc)
  case Nil
  then show ?case by simp
next
  case (Cons kv kvs)
  obtain k v where kv: "kv = (k, v)" by (cases kv)
  from Cons.prems kv have "k \<notin> fst ` set acc" by auto
  then have "AList.update k v acc = acc @ [(k, v)]" by (rule update_fresh)
  moreover from Cons.prems kv have "distinct (map fst ((acc @ [(k, v)]) @ kvs))" by simp
  ultimately show ?case using Cons.IH [of "acc @ [(k, v)]"] kv by simp
qed

lemma collect_distinct:
  "distinct (map fst kvs) \<Longrightarrow> enumeration_order kvs = kvs \<Longrightarrow> collect kvs = kvs"
  using collect_append [of "[]" kvs] by (simp add: collect_def)

lemma member_text_map:
  "map (\<lambda>(k, v). json_quote k @ '': '' @ json_text gap2 ind' v) kvs = map (member_text ind') kvs"
  by (simp add: member_text_def case_prod_beta)

lemma json_text_members:
  assumes "wf_json (JObj kvs)"
  shows "json_text gap2 ind (JObj kvs)
       = wrap_items gap2 ind ''{'' ''}'' (map (member_text (ind @ gap2)) kvs)"
proof -
  from assms have "list_all (\<lambda>(k, v). v \<noteq> JUndefined) kvs"
    by (auto simp: list_all_iff dest: wf_json_defined)
  moreover from assms have "enumeration_order kvs = kvs" by simp
  ultimately show ?thesis by (simp only: json_text_obj member_text_map)
qed

lemma digit_not_opener:
  "digit c \<or> c = CHR ''-'' \<Longrightarrow>
     c \<noteq> CHR ''n'' \<and> c \<noteq> CHR ''t'' \<and> c \<noteq> CHR ''f'' \<and> c \<noteq> CHR 0x22 \<and> c \<noteq> CHR ''['' \<and> c \<noteq> CHR ''{''
     \<and> \<not> is_ws c"
  by (auto simp: digit_def in_range_def is_ws_def)

lemma parse_value_text:
  assumes "wf_json v" and "list_all is_ws ind" and "list_all is_ws pre" and "ends_number rest"
    and "fuel v \<le> n"
  shows "parse_value n (pre @ json_text gap2 ind v @ rest) = Got (v, rest)"
  using assms
proof (induction v arbitrary: ind pre rest n)
  case JUndefined
  then show ?case by simp
next
  case JNull
  then obtain m where "n = Suc m" by (cases n) auto
  then show ?case
    using skip_ws_pre [of pre "CHR ''n''" "''ull'' @ rest"] JNull.prems(3)
    by (simp add: json_text_simps is_ws_def strip_prefix_def)
next
  case (JBool b)
  then obtain m where "n = Suc m" by (cases n) auto
  then show ?case
    using skip_ws_pre [of pre "CHR ''t''" "''rue'' @ rest"]
      skip_ws_pre [of pre "CHR ''f''" "''alse'' @ rest"] JBool.prems(3)
    by (simp add: json_text_simps is_ws_def strip_prefix_def)
next
  case (JNum num)
  then obtain w where w: "num = Finite w" by (cases num) auto
  from JNum obtain m where n: "n = Suc m" by (cases n) auto
  obtain c cs where c: "dec_int (sint w) = c # cs" "c = CHR ''-'' \<or> digit c"
    using dec_int_start [of "sint w"] by blast
  then have no: "c \<noteq> CHR ''n'' \<and> c \<noteq> CHR ''t'' \<and> c \<noteq> CHR ''f'' \<and> c \<noteq> CHR 0x22 \<and> c \<noteq> CHR ''[''
      \<and> c \<noteq> CHR ''{'' \<and> \<not> is_ws c"
    using digit_not_opener [of c] by blast
  then have "skip_ws (pre @ c # cs @ rest) = c # cs @ rest"
    using skip_ws_pre [of pre c "cs @ rest"] JNum.prems(3) by simp
  moreover have "parse_number (c # cs @ rest) = Got (JNum (Finite w), rest)"
    using parse_number_finite [OF JNum.prems(4), of w] c by simp
  ultimately show ?case using n c no w by (simp add: json_text_simps)
next
  case (JStr s)
  then obtain m where n: "n = Suc m" by (cases n) auto
  have "skip_ws (pre @ CHR 0x22 # concat (map quote_char s) @ CHR 0x22 # rest)
          = CHR 0x22 # concat (map quote_char s) @ CHR 0x22 # rest"
    using skip_ws_pre [of pre "CHR 0x22"] JStr.prems(3) by (simp add: is_ws_def)
  then show ?case using n
    by (simp add: json_text_simps json_quote_def parse_string_quoted)
next
  case (JArr xs)
  then obtain m where n: "n = Suc m" and fm: "sum_list (map (\<lambda>x. Suc (fuel x)) xs) \<le> m"
    by (cases n) auto
  have opener: "\<And>s. skip_ws (pre @ CHR ''['' # s) = CHR ''['' # s"
    using skip_ws_pre [of pre "CHR ''[''"] JArr.prems(3) by (simp add: is_ws_def)
  show ?case
  proof (cases "xs = []")
    case True
    then show ?thesis using n opener [of "CHR '']'' # rest"]
      by (simp add: json_text_arr wrap_items_def skip_ws_def is_ws_def)
  next
    case False
    let ?ind' = "ind @ gap2"
    let ?body = "join_with ('','' @ newline @ ?ind') (map (json_text gap2 ?ind') xs)
                   @ newline @ ind @ '']'' @ rest"
    have ws': "list_all is_ws ?ind'" using JArr.prems(2) ws_gap2 by simp
    have shape: "json_text gap2 ind (JArr xs) @ rest = CHR ''['' # (newline @ ?ind') @ ?body"
      using False by (simp add: json_text_arr wrap_items_def gap2_def)
    obtain x xs' where xs: "xs = x # xs'" using False by (cases xs) auto
    with JArr.prems(1) have "x \<noteq> JUndefined" by (auto dest: wf_json_defined)
    then obtain c cs where c: "json_text gap2 ?ind' x = c # cs" "value_start c"
      using json_text_start by blast
    then have first: "skip_ws ((newline @ ?ind') @ ?body)
                        = c # cs @ (if xs' = [] then [] else ('','' @ newline @ ?ind')
                            @ join_with ('','' @ newline @ ?ind') (map (json_text gap2 ?ind') xs'))
                          @ newline @ ind @ '']'' @ rest"
      using skip_ws_pre [of "newline @ ?ind'" c] ws' ws_newline xs
      by (simp add: join_with_Cons value_start_def)
    have "parse_elements m ((newline @ ?ind') @ ?body) = Got (xs, rest)"
    proof (rule parse_elements_texts)
      show "xs \<noteq> []" by (rule False)
      show "list_all is_ws (newline @ ?ind')" using ws' ws_newline by simp
      show "list_all is_ws ind" by (rule JArr.prems(2))
      show "list_all is_ws ?ind'" by (rule ws')
      show "sum_list (map (\<lambda>x. Suc (fuel x)) xs) \<le> m" by (rule fm)
      show "parse_value n (pre @ json_text gap2 ?ind' x @ rest) = Got (x, rest)"
        if "x \<in> set xs" "list_all is_ws pre" "ends_number rest" "fuel x \<le> n"
        for x pre rest n
        using that JArr.IH [of x ?ind' pre rest n] JArr.prems(1) ws' by (simp add: list_all_iff)
    qed
    with first c(2) show ?thesis using n opener shape
      by (simp add: value_start_def)
  qed
next
  case (JObj kvs)
  then obtain m where n: "n = Suc m" and fm: "sum_list (map (\<lambda>(k, v). Suc (fuel v)) kvs) \<le> m"
    by (cases n) auto
  have opener: "\<And>s. skip_ws (pre @ CHR ''{'' # s) = CHR ''{'' # s"
    using skip_ws_pre [of pre "CHR ''{''"] JObj.prems(3) by (simp add: is_ws_def)
  from JObj.prems(1) have dist: "distinct (map fst kvs)" "enumeration_order kvs = kvs" by simp_all
  show ?case
  proof (cases "kvs = []")
    case True
    then show ?thesis using n opener [of "CHR ''}'' # rest"]
      by (simp add: json_text_members wrap_items_def skip_ws_def is_ws_def collect_def)
  next
    case False
    let ?ind' = "ind @ gap2"
    let ?body = "join_with ('','' @ newline @ ?ind') (map (member_text ?ind') kvs)
                   @ newline @ ind @ ''}'' @ rest"
    have ws': "list_all is_ws ?ind'" using JObj.prems(2) ws_gap2 by simp
    have shape: "json_text gap2 ind (JObj kvs) @ rest = CHR ''{'' # (newline @ ?ind') @ ?body"
    proof -
      have "gap2 \<noteq> []" by (simp add: gap2_def)
      with False JObj.prems(1) show ?thesis
        by (simp add: json_text_members wrap_items_def)
    qed
    obtain kv kvs' where kvs: "kvs = kv # kvs'" using False by (cases kvs) auto
    have first: "\<exists>s. skip_ws ((newline @ ?ind') @ ?body) = CHR 0x22 # s"
      using skip_ws_pre [of "newline @ ?ind'" "CHR 0x22"] ws' ws_newline kvs
      by (simp add: join_with_Cons member_text_def json_quote_def is_ws_def)
    have "parse_members m ((newline @ ?ind') @ ?body) = Got (kvs, rest)"
    proof (rule parse_members_texts)
      show "kvs \<noteq> []" by (rule False)
      show "list_all is_ws (newline @ ?ind')" using ws' ws_newline by simp
      show "list_all is_ws ind" by (rule JObj.prems(2))
      show "list_all is_ws ?ind'" by (rule ws')
      show "sum_list (map (\<lambda>(k, v). Suc (fuel v)) kvs) \<le> m" by (rule fm)
      show "parse_value n (pre @ json_text gap2 ?ind' v @ rest) = Got (v, rest)"
        if "(k, v) \<in> set kvs" "list_all is_ws pre" "ends_number rest" "fuel v \<le> n"
        for k v pre rest n
      proof -
        from that(1) JObj.prems(1) have "wf_json v" by (auto simp: list_all_iff)
        moreover from that(1) have "v \<in> Basic_BNFs.snds (k, v)" by simp
        ultimately show ?thesis
          using JObj.IH [of "(k, v)" v ?ind' pre rest n] that ws' by simp
      qed
    qed
    with first show ?thesis using n opener shape dist
      by (auto simp: collect_distinct)
  qed
qed

lemma join_with_fuel:
  assumes "\<And>x. x \<in> set xs \<Longrightarrow> g x \<le> length (f x)" and "xs \<noteq> []" and "sep \<noteq> []"
  shows "sum_list (map (\<lambda>x. Suc (g x)) xs) \<le> Suc (length (join_with sep (map f xs)))"
  using assms
proof (induction xs)
  case Nil
  then show ?case by simp
next
  case (Cons x xs)
  have x: "g x \<le> length (f x)" using Cons.prems(1) by simp
  show ?case
  proof (cases "xs = []")
    case True
    with x show ?thesis by simp
  next
    case False
    then have "sum_list (map (\<lambda>x. Suc (g x)) xs) \<le> Suc (length (join_with sep (map f xs)))"
      using Cons.IH Cons.prems by simp
    moreover obtain c cs where "sep = c # cs" using Cons.prems(3) by (cases sep) auto
    ultimately show ?thesis using x False by (simp add: join_with_Cons)
  qed
qed

lemma fuel_le_length: "wf_json v \<Longrightarrow> fuel v \<le> length (json_text gap2 ind v)"
proof (induction v arbitrary: ind)
  case (JNum num)
  then obtain w where "num = Finite w" by (cases num) auto
  then show ?case using dec_int_start [of "sint w"] by (auto simp: json_text_simps)
next
  case (JArr xs)
  show ?case
  proof (cases "xs = []")
    case True
    then show ?thesis by (simp add: json_text_arr wrap_items_def)
  next
    case False
    have "sum_list (map (\<lambda>x. Suc (fuel x)) xs)
            \<le> Suc (length (join_with ('','' @ newline @ ind @ gap2) (map (json_text gap2 (ind @ gap2)) xs)))"
    proof (rule join_with_fuel)
      show "fuel x \<le> length (json_text gap2 (ind @ gap2) x)" if "x \<in> set xs" for x
        using that JArr.IH [of x "ind @ gap2"] JArr.prems by (simp add: list_all_iff)
    qed (use False in simp_all)
    then show ?thesis using False
      by (simp add: json_text_arr wrap_items_def gap2_def newline_def)
  qed
next
  case (JObj kvs)
  show ?case
  proof (cases "kvs = []")
    case True
    then show ?thesis using JObj.prems by (simp add: json_text_members wrap_items_def)
  next
    case False
    have "sum_list (map (\<lambda>kv. Suc (fuel (snd kv))) kvs)
            \<le> Suc (length (join_with ('','' @ newline @ ind @ gap2) (map (member_text (ind @ gap2)) kvs)))"
    proof (rule join_with_fuel)
      show "fuel (snd kv) \<le> length (member_text (ind @ gap2) kv)" if "kv \<in> set kvs" for kv
      proof -
        obtain k v where kv: "kv = (k, v)" by (cases kv)
        with that JObj.prems have "wf_json v" by (auto simp: list_all_iff)
        moreover from kv have "v \<in> Basic_BNFs.snds kv" by simp
        ultimately have "fuel v \<le> length (json_text gap2 (ind @ gap2) v)"
          using JObj.IH [of kv v "ind @ gap2"] that by simp
        with kv show ?thesis by (simp add: member_text_def)
      qed
    qed (use False in simp_all)
    moreover have "gap2 \<noteq> []" by (simp add: gap2_def)
    ultimately show ?thesis using False JObj.prems
      by (simp add: json_text_members wrap_items_def newline_def split_def)
  qed
qed (simp_all add: json_text_simps json_quote_def)

lemma json_parse_stringify:
  assumes "wf_json v"
  shows "\<exists>t. json_stringify2 v = Some t \<and> json_parse t = Got v"
proof -
  from assms have "v \<noteq> JUndefined" by (rule wf_json_defined)
  then obtain t where t: "json_ser ''  '' [] v = Some t"
    using json_ser_None [of "''  ''" "[]" v] by auto
  then have same: "json_text gap2 [] v = t" by (simp add: json_text_def gap2_def)
  have "parse_value (length t) ([] @ json_text gap2 [] v @ []) = Got (v, [])"
    using assms fuel_le_length [OF assms, of "[]"] same
    by (intro parse_value_text) (simp_all add: ends_number_simps)
  with t same show ?thesis by (simp add: json_stringify2_def json_parse_def skip_ws_def)
qed




lemma read_back_encoded: "wf_json v \<Longrightarrow> read_back (encoded v) = Got v"
proof -
  assume wf: "wf_json v"
  then obtain t where t: "json_stringify2 v = Some t" "json_parse t = Got v"
    using json_parse_stringify by blast
  then have "json_text gap2 [] v = t" by (simp add: json_stringify2_def json_text_def gap2_def)
  with t show ?thesis by (simp add: read_back_def encoded_def base64_roundtrip)
qed


subsection \<open>The calls of an accepted request\<close>

lemma respond_calls: "fst (snd (respond a)) = fst (snd a)"
  by (simp add: respond_def split: prod.splits sum.splits)



lemma index_write_call_entry:
  assumes "to_string (lookup data ''cn_name'') = Inr cn_name"
  shows "index_write_call token repo data (with_entry kvs ps e d) sha
           = Inr (index_write token repo cn_name (with_entry kvs ps e d) sha)"
  unfolding with_entry_def using assms by (rule index_write_call_write)

text \<open>The index as the handler takes it from the response to its read.\<close>

lemma update_index_run:
  assumes "to_string (lookup data ''id'') = Inr pluginId"
    and "to_string (lookup data ''cn_name'') = Inr cn_name"
    and "fetch pf (index_read token repo) w = (Resolved r3, w3)"
    and "read_index pf r3 = Inr (JObj kvs, sha)"
    and "map_of kvs ''plugins'' = Some (JArr ps)"
    and "plugin_ids ps = Inr ids"
    and "fetch pf (index_write token repo cn_name
                     (with_entry kvs ps (index_entry repo pluginId (config_content data)) (today pf))
                     sha) w3 = (r4, w4)"
  shows "update_index pf token repo data calls w =
     (if array_includes ids (lookup data ''id'') then
        (Inr (400, failure msg_exists), calls @ [index_read token repo], w3)
      else
        ((case r4 of
            Rejected e \<Rightarrow> Inl e
          | Resolved updateRes \<Rightarrow>
              Inr (200, JObj [(''success'', JBool True), (''message'', JStr (msg_submitted cn_name))])),
         calls @ [index_read token repo,
                  index_write token repo cn_name
                    (with_entry kvs ps (index_entry repo pluginId (config_content data)) (today pf))
                    sha],
         w4))"
  using assms
  by (simp add: update_index_def index_read_call_read new_plugin_entry updated_index_with_entry
      index_write_call_entry success_body_message
      split: fetch_result.splits)

text \<open>The run of an accepted request whose two uploads succeed.\<close>

lemma handler_run:
  assumes "accepted ev req"
    and "to_string (lookup (req_body req) ''id'') = Inr pluginId"
    and "to_string (lookup (req_body req) ''cn_name'') = Inr cn_name"
    and "buffer_from pf (lookup (req_body req) ''code'') = Inr code"
    and "fetch pf (source_write (token_of ev) (repo_of ev) pluginId cn_name code) w = (Resolved r1, w1)"
    and "ok r1"
    and "fetch pf (config_write (token_of ev) (repo_of ev) pluginId cn_name
                     (config_content (req_body req))) w1 = (Resolved r2, w2)"
    and "ok r2"
    and "fetch pf (index_read (token_of ev) (repo_of ev)) w2 = (Resolved r3, w3)"
    and "read_index pf r3 = Inr (JObj kvs, sha)"
    and "map_of kvs ''plugins'' = Some (JArr ps)"
    and "plugin_ids ps = Inr ids"
    and "fetch pf (index_write (token_of ev) (repo_of ev) cn_name
                     (with_entry kvs ps
                        (index_entry (repo_of ev) pluginId (config_content (req_body req)))
                        (today pf))
                     sha) w3 = (r4, w4)"
  shows "handler pf ev req w =
     respond
       (if array_includes ids (lookup (req_body req) ''id'') then
          (Inr (400, failure msg_exists),
           [source_write (token_of ev) (repo_of ev) pluginId cn_name code,
            config_write (token_of ev) (repo_of ev) pluginId cn_name (config_content (req_body req)),
            index_read (token_of ev) (repo_of ev)],
           w3)
        else
          ((case r4 of
              Rejected e \<Rightarrow> Inl e
            | Resolved updateRes \<Rightarrow>
                Inr (200, JObj [(''success'', JBool True),
                                (''message'', JStr (msg_submitted cn_name))])),
           [source_write (token_of ev) (repo_of ev) pluginId cn_name code,
            config_write (token_of ev) (repo_of ev) pluginId cn_name (config_content (req_body req)),
            index_read (token_of ev) (repo_of ev),
            index_write (token_of ev) (repo_of ev) cn_name
              (with_entry kvs ps
                 (index_entry (repo_of ev) pluginId (config_content (req_body req))) (today pf))
              sha],
           w4))"
proof -
  have "handler pf ev req w =
      respond (update_index pf (token_of ev) (repo_of ev) (req_body req)
        ([source_write (token_of ev) (repo_of ev) pluginId cn_name code]
         @ [config_write (token_of ev) (repo_of ev) pluginId cn_name (config_content (req_body req))])
        w2)"
    using assms(1-8)
    by (simp only: handler_accepted upload_plugin_ok [OF assms(2-6)] upload_config_ok [OF assms(2,3,7,8)])
  then show ?thesis
    by (simp add: update_index_run [OF assms(2,3,9-13)])
qed

text \<open>What the test double reads from the index file it serves.\<close>

lemma wf_index_with: "wf_json (index_with i)"
  by (simp add: index_with_def enumeration_order_def is_index_def array_index_def digit_def
      in_range_def)

lemma scripted_index_file:
  "read_index scripted (json_response 200
       (JObj [(''content'', JStr (encoded (index_with i))), (''sha'', JStr ''abc123'')]))
     = Inr (JObj [(''version'', JStr ''1.0.0''), (''last_updated'', JStr ''2024-01-01''),
                  (''plugins'', JArr [JObj [(''id'', JStr i)]])], JStr ''abc123'')"
  using read_back_encoded [OF wf_index_with, of i]
  by (simp add: read_index_def ok_def json_response_def scripted_def decoded_content_def)
    (simp add: index_with_def)

lemmas run_defs =
  post_def submission_def sample_env_def no_token_env_def scripted_def created_def
  unprocessable_def not_found_def index_file_def cut_off_def json_response_def ok_def

lemmas accepted_defs =
  accepted_def fields_present_def required_def id_regex_test_def id_pattern_def in_class_def
  in_range_def env_truthy_def

section \<open>The claims\<close>

subsection \<open>C1: the CORS headers\<close>

text \<open>
  Claim C1 says that every reply, the 405 of the method gate included, carries the
  three CORS headers. The handler returns from the method gate on line 5, before the
  headers are set on lines 9--11: a \<^verbatim>\<open>GET\<close> is answered with status 405 and none
  of the headers.
\<close>

theorem C1_method_gate_reply_has_no_cors_headers:
  "handler scripted sample_env \<lparr>req_method = ''GET'', req_body = submission ''abc''\<rparr> []
     = (\<lparr>res_status = 405, res_headers = [], res_json = failure ''Method not allowed''\<rparr>, [], [])"
  by (simp add: handler_def)

text \<open>Every reply to a \<^verbatim>\<open>POST\<close> carries exactly the three headers, whatever the
  outcome, an exception caught on line 178 included.\<close>

theorem post_reply_has_cors_headers:
  "req_method req = ''POST'' \<Longrightarrow> res_headers (fst (handler pf ev req w)) = cors_headers"
  by (simp add: handler_def respond_def split: prod.splits sum.splits)

theorem post_reply_has_cors_headers_witness:
  "res_headers (fst (handler scripted sample_env (post JNull) []))
     = [(''Access-Control-Allow-Origin'', ''*''),
        (''Access-Control-Allow-Methods'', ''POST''),
        (''Access-Control-Allow-Headers'', ''Content-Type'')]"
  using post_reply_has_cors_headers [of "post JNull" scripted sample_env "[]"]
  by (simp add: post_def cors_headers_def)

subsection \<open>C2: required fields\<close>

text \<open>
  Claim C2 says that a \<^verbatim>\<open>POST\<close> in which a required field is absent is answered
  with status 400 and an error naming the first such field. For a \<^verbatim>\<open>POST\<close> without
  a body, or with the JSON body \<^verbatim>\<open>null\<close>, every required field is absent and the
  first of them is \<^verbatim>\<open>id\<close>; but the read \<^verbatim>\<open>data['id']\<close> on line 19 throws a
  \<^verbatim>\<open>TypeError\<close>, and the \<^verbatim>\<open>catch\<close> on line 178 answers with status 500 and the
  message of that error.
\<close>

theorem C2_null_body_answered_500:
  "req_method (post JNull) = ''POST''
   \<and> first_missing (req_body (post JNull)) = Some ''id''
   \<and> handler scripted sample_env (post JNull) [] =
       (\<lparr>res_status = 500, res_headers = cors_headers,
         res_json = JObj [(''success'', JBool False),
                          (''error'', JStr (''Cannot read properties of null (reading ''
                                            @ [CHR 0x27] @ ''id'' @ [CHR 0x27] @ '')''))]\<rparr>,
        [], [])"
  by (simp add: handler_def try_block_def required_def respond_def post_def first_missing_def
      failure_def cannot_read_def squote_def)

text \<open>For every other body the claim holds: when the body is neither \<^verbatim>\<open>undefined\<close>
  nor \<^verbatim>\<open>null\<close> and some required field is absent or falsy, the reply is status 400
  with \<^verbatim>\<open>success\<close> false and an error naming the first such field in the order id,
  cn_name, author, description, code; no call is made and the remote state is
  untouched.\<close>

theorem missing_field_rejected:
  assumes "req_method req = ''POST''" and "req_body req \<noteq> JUndefined" and "req_body req \<noteq> JNull"
    and "first_missing (req_body req) = Some field"
  shows "handler pf ev req w =
     (\<lparr>res_status = 400, res_headers = cors_headers,
       res_json = failure (msg_missing_field @ field)\<rparr>, [], w)"
  using assms
  by (simp add: handler_def try_block_def check_required_find first_missing_def respond_def)

text \<open>A body with a fine id, \<^verbatim>\<open>cn_name\<close> 0 and nothing else: \<^verbatim>\<open>cn_name\<close> is reported,
  the fields missing after it are not.\<close>

theorem missing_field_rejected_witness:
  "handler scripted sample_env
     (post (JObj [(''id'', JStr ''abc''), (''cn_name'', JNum (Finite 0))])) [] =
     (\<lparr>res_status = 400, res_headers = cors_headers,
       res_json = failure (msg_missing_field @ ''cn_name'')\<rparr>, [], [])"
  using missing_field_rejected
    [of "post (JObj [(''id'', JStr ''abc''), (''cn_name'', JNum (Finite 0))])" "''cn_name''"
        scripted sample_env "[]"]
  by (simp add: post_def first_missing_def required_def)

subsection \<open>C3: the format of the id\<close>

text \<open>
  Claim C3 says that a \<^verbatim>\<open>POST\<close> with all required fields whose id does not match
  the pattern is answered with status 400. The id \<^verbatim>\<open>{"toString": 1}\<close> is truthy, so
  the field is present, and it does not match the pattern; but
  \<^verbatim>\<open>/^[a-z][a-z0-9_]*$/.test(pluginId)\<close> on line 27 converts it to a string, the
  conversion throws a \<^verbatim>\<open>TypeError\<close>, and the \<^verbatim>\<open>catch\<close> answers with status 500.
\<close>

theorem C3_unconvertible_id_answered_500:
  "req_method (post odd_id_submission) = ''POST''
   \<and> fields_present (req_body (post odd_id_submission))
   \<and> lookup (req_body (post odd_id_submission)) ''id'' = JObj [(''toString'', JNum (Finite 1))]
   \<and> handler scripted sample_env (post odd_id_submission) [] =
       (\<lparr>res_status = 500, res_headers = cors_headers,
         res_json = JObj [(''success'', JBool False),
                          (''error'', JStr ''Cannot convert object to primitive value'')]\<rparr>,
        [], [])"
  by (simp add: handler_def try_block_def required_def respond_def post_def fields_present_def
      odd_id_submission_def id_regex_test_def cannot_convert_def failure_def)

text \<open>
  For an id that converts to a string the claim holds. The pattern is \<open>id_spec\<close>,
  the words of the claim (``a lowercase letter followed by zero or more lowercase
  letters, digits or underscores''); the handler tests the regular expression
  \<open>id_pattern\<close> on the string of the id, which is the id itself when it is a
  string. An id whose string does not match is answered with status 400 and
  \<^verbatim>\<open>success\<close> false, without any call; one whose string matches passes, and the
  handler goes on with the configuration gate and the uploads.
\<close>

theorem id_format:
  assumes "req_method req = ''POST''" and "fields_present (req_body req)"
    and "to_string (lookup (req_body req) ''id'') = Inr pluginId"
  shows "handler pf ev req w =
     (if id_spec pluginId then
        respond (if \<not> env_truthy (GITHUB_TOKEN ev) then (Inr (500, failure msg_no_token), [], w)
                 else upload_plugin pf (token_of ev) (repo_of ev) (req_body req) w)
      else (\<lparr>res_status = 400, res_headers = cors_headers, res_json = failure msg_bad_id\<rparr>, [], w))"
  using assms
  by (simp add: handler_def try_block_def check_required_present id_regex_test_def id_pattern_spec
      respond_def token_of_def repo_of_def)

theorem id_format_witness:
  "handler scripted no_token_env (post (submission ''ab-c'')) [] =
     (\<lparr>res_status = 400, res_headers = cors_headers, res_json = failure msg_bad_id\<rparr>, [], [])
   \<and> handler scripted no_token_env (post (submission ''a1_b2'')) [] =
     (\<lparr>res_status = 500, res_headers = cors_headers, res_json = failure msg_no_token\<rparr>, [], [])"
  using id_format [of "post (submission ''ab-c'')" "''ab-c''" scripted no_token_env "[]"]
    id_format [of "post (submission ''a1_b2'')" "''a1_b2''" scripted no_token_env "[]"]
  by (simp add: run_defs fields_present_def required_def lowercase_def digit_def in_range_def
      env_truthy_def respond_def)

subsection \<open>C4: the configuration gate\<close>



subsection \<open>C5: a failed upload of the source file\<close>

text \<open>
  Claim C5, as amended: for an accepted request whose id, name and code convert, and
  whose source-file write (the \<^verbatim>\<open>PUT\<close> of \<^verbatim>\<open>plugins/<id>/plugin.py\<close>) comes back as
  a response that is not a success, the reply is status 500 with \<^verbatim>\<open>success\<close> false,
  and the source-file write is the only call: neither the config file nor the index
  is touched. The message ends with the upstream status code when the error body of
  the response can be read (line 82 reads it for the log); when that read throws,
  the message is the one of the exception.
\<close>

theorem C5_plugin_upload_failure:
  assumes "accepted ev req"
    and "to_string (lookup (req_body req) ''id'') = Inr pluginId"
    and "to_string (lookup (req_body req) ''cn_name'') = Inr cn_name"
    and "buffer_from pf (lookup (req_body req) ''code'') = Inr code"
    and "fetch pf
           \<lparr>fetch_url = ''https://api.github.com/repos/'' @ repo_of ev @ ''/contents/plugins/''
                          @ pluginId @ ''/plugin.py'',
            fetch_method = ''PUT'',
            fetch_headers = [(''Authorization'', ''token '' @ token_of ev),
                             (''Accept'', ''application/vnd.github.v3+json''),
                             (''Content-Type'', ''application/json'')],
            fetch_body = Some (JObj [(''message'', JStr (''Add plugin: '' @ cn_name)),
                                     (''content'', JStr (base64_encode code)),
                                     (''branch'', JStr ''main'')])\<rparr> w = (Resolved r, w1)"
    and "\<not> ok r"
  shows "handler pf ev req w =
     (\<lparr>res_status = 500, res_headers = cors_headers,
       res_json =
         JObj [(''success'', JBool False),
               (''error'', JStr (case body_text r of
                                   Inr errorText \<Rightarrow>
                                     msg_upload_failed ''plugin.py'' @ dec_nat (http_status r)
                                 | Inl e \<Rightarrow> e))]\<rparr>,
      [source_write (token_of ev) (repo_of ev) pluginId cn_name code], w1)"
proof -
  have "fetch pf (source_write (token_of ev) (repo_of ev) pluginId cn_name code) w = (Resolved r, w1)"
    using assms(5) by (simp add: source_write_def file_write_def github_headers_def)
  with assms(1-4,6) show ?thesis
    by (simp add: handler_accepted upload_plugin_def plugin_call_source respond_def failure_def
        split: sum.splits)
qed

theorem C5_plugin_upload_failure_witness:
  "handler scripted sample_env (post (submission ''abc'')) [unprocessable, created] =
     (\<lparr>res_status = 500, res_headers = cors_headers,
       res_json = failure (msg_upload_failed ''plugin.py'' @ ''422'')\<rparr>,
      [source_write ''t0k'' ''VBHC-UHY/whitesalary-plugins'' ''abc'' ''Test'' ''print(1)''],
      [created])"
  using C5_plugin_upload_failure
    [where pf = scripted and ev = sample_env and req = "post (submission ''abc'')"
       and w = "[unprocessable, created]" and pluginId = "''abc''" and cn_name = "''Test''"
       and code = "''print(1)''" and ?w1.0 = "[created]"
       and r = "json_response 422 (JObj [(''message'', JStr ''Invalid request'')])"]
  by (simp add: run_defs accepted_defs buffer_from_def token_of_def repo_of_def env_or_def
      default_repo_def dec_nat.simps digit_char_def char_of_def bit_Suc_0_iff failure_def)

text \<open>The claim as stated fails when the response is not a success and its body cannot
  be read (the connection breaks after the status line and headers):
  \<^verbatim>\<open>await pluginRes.text()\<close> throws on line 82, before the message with the status code
  is built, and the \<^verbatim>\<open>catch\<close> answers with the message of the exception, which does
  not hold the status 422.\<close>

theorem C5_unreadable_body_counterexample:
  "accepted sample_env (post (submission ''abc''))
   \<and> handler scripted sample_env (post (submission ''abc'')) [cut_off, created] =
       (\<lparr>res_status = 500, res_headers = cors_headers, res_json = failure ''terminated''\<rparr>,
        [source_write ''t0k'' ''VBHC-UHY/whitesalary-plugins'' ''abc'' ''Test'' ''print(1)''],
        [created])"
  using handler_accepted
    [where pf = scripted and ev = sample_env and req = "post (submission ''abc'')"
       and w = "[cut_off, created]"]
    plugin_call_source
    [where pf = scripted and data = "submission ''abc''" and pluginId = "''abc''"
       and cn_name = "''Test''" and code = "''print(1)''" and token = "''t0k''"
       and repo = "''VBHC-UHY/whitesalary-plugins''"]
  by (simp add: run_defs accepted_defs buffer_from_def token_of_def repo_of_def env_or_def
      default_repo_def upload_plugin_def respond_def)

subsection \<open>C6: an id that is already in the index\<close>



subsection \<open>C7: the final write of the index\<close>

text \<open>
  Claim C7, as amended: for an accepted request whose two uploads succeeded and whose
  id is not in the index, the reply is status 200 with body \<^verbatim>\<open>success\<close> true and the
  message built from \<^verbatim>\<open>cn_name\<close>, whenever the final \<^verbatim>\<open>PUT\<close> of the index resolves to
  a response, whatever that response is: its \<^verbatim>\<open>ok\<close>, status and body are never read.
  The calls are the two uploads, the read of the index and the write of the index
  with the new entry.
\<close>

theorem C7_final_write_unchecked:
  assumes "accepted ev req"
    and "to_string (lookup (req_body req) ''id'') = Inr pluginId"
    and "to_string (lookup (req_body req) ''cn_name'') = Inr cn_name"
    and "buffer_from pf (lookup (req_body req) ''code'') = Inr code"
    and "fetch pf (source_write (token_of ev) (repo_of ev) pluginId cn_name code) w = (Resolved r1, w1)"
    and "ok r1"
    and "fetch pf (config_write (token_of ev) (repo_of ev) pluginId cn_name
                     (config_content (req_body req))) w1 = (Resolved r2, w2)"
    and "ok r2"
    and "fetch pf (index_read (token_of ev) (repo_of ev)) w2 = (Resolved r3, w3)"
    and "read_index pf r3 = Inr (JObj kvs, sha)"
    and "map_of kvs ''plugins'' = Some (JArr ps)"
    and "plugin_ids ps = Inr existingIds"
    and "\<not> array_includes existingIds (lookup (req_body req) ''id'')"
    and "fetch pf (index_write (token_of ev) (repo_of ev) cn_name
                     (with_entry kvs ps
                        (index_entry (repo_of ev) pluginId (config_content (req_body req)))
                        (today pf))
                     sha) w3 = (Resolved r4, w4)"
  shows "handler pf ev req w =
     (\<lparr>res_status = 200, res_headers = cors_headers,
       res_json = JObj [(''success'', JBool True),
                        (''message'',
                         JStr ([CHR 0xE6, CHR 0x8F, CHR 0x92, CHR 0xE4, CHR 0xBB, CHR 0xB6] @ '' ''
                               @ cn_name @ '' ''
                               @ [CHR 0xE6, CHR 0x8F, CHR 0x90, CHR 0xE4, CHR 0xBA, CHR 0xA4,
                                  CHR 0xE6, CHR 0x88, CHR 0x90, CHR 0xE5, CHR 0x8A, CHR 0x9F,
                                  CHR 0xEF, CHR 0xBC, CHR 0x81]))]\<rparr>,
      [source_write (token_of ev) (repo_of ev) pluginId cn_name code,
       config_write (token_of ev) (repo_of ev) pluginId cn_name (config_content (req_body req)),
       index_read (token_of ev) (repo_of ev),
       index_write (token_of ev) (repo_of ev) cn_name
         (with_entry kvs ps
            (index_entry (repo_of ev) pluginId (config_content (req_body req))) (today pf))
         sha],
      w4)"
  using handler_run [OF assms(1-12,14)] assms(13) by (simp add: respond_def msg_submitted_def)

text \<open>The final write is refused with status 422, and the reply is the success all the
  same.\<close>

theorem C7_final_write_unchecked_witness:
  "handler scripted sample_env (post (submission ''abc''))
         [created, created, index_file ''other'', unprocessable] =
     (\<lparr>res_status = 200, res_headers = cors_headers,
       res_json = JObj [(''success'', JBool True), (''message'', JStr (msg_submitted ''Test''))]\<rparr>,
      [source_write ''t0k'' ''VBHC-UHY/whitesalary-plugins'' ''abc'' ''Test'' ''print(1)'',
       config_write ''t0k'' ''VBHC-UHY/whitesalary-plugins'' ''abc'' ''Test''
         (config_content (submission ''abc'')),
       index_read ''t0k'' ''VBHC-UHY/whitesalary-plugins'',
       index_write ''t0k'' ''VBHC-UHY/whitesalary-plugins'' ''Test''
         (JObj [(''version'', JStr ''1.0.0''), (''last_updated'', JStr ''2024-05-01''),
                (''plugins'',
                 JArr [JObj [(''id'', JStr ''other'')],
                       index_entry ''VBHC-UHY/whitesalary-plugins'' ''abc''
                         (config_content (submission ''abc''))])])
         (JStr ''abc123'')],
      [])"
  using C7_final_write_unchecked
    [where pf = scripted and ev = sample_env
       and req = "post (submission ''abc'')"
       and w = "[created, created, index_file ''other'', unprocessable]"
       and pluginId = "''abc''" and cn_name = "''Test''" and code = "''print(1)''"
       and ?r1.0 = "json_response 201 (JObj [(''commit'', JObj [(''sha'', JStr ''7638417'')])])"
       and ?w1.0 = "[created, index_file ''other'', unprocessable]"
       and ?r2.0 = "json_response 201 (JObj [(''commit'', JObj [(''sha'', JStr ''7638417'')])])"
       and ?w2.0 = "[index_file ''other'', unprocessable]"
       and ?r3.0 = "json_response 200
                      (JObj [(''content'', JStr (encoded (index_with ''other''))),
                             (''sha'', JStr ''abc123'')])"
       and ?w3.0 = "[unprocessable]"
       and kvs = "[(''version'', JStr ''1.0.0''), (''last_updated'', JStr ''2024-01-01''),
                   (''plugins'', JArr [JObj [(''id'', JStr ''other'')]])]"
       and sha = "JStr ''abc123''"
       and ps = "[JObj [(''id'', JStr ''other'')]]"
       and existingIds = "[JStr ''other'']"
       and ?r4.0 = "json_response 422 (JObj [(''message'', JStr ''Invalid request'')])"
       and ?w4.0 = "[]"]
    scripted_index_file [of "''other''"]
  by (simp add: post_def submission_def sample_env_def created_def unprocessable_def index_file_def
      accepted_defs buffer_from_def token_of_def repo_of_def env_or_def default_repo_def
      array_includes_def with_entry_def msg_submitted_def)
    (simp add: scripted_def json_response_def ok_def)

text \<open>The claim as stated fails when the final write fails as a rejected \<^verbatim>\<open>fetch\<close>
  (a network error): \<^verbatim>\<open>await\<close> throws on line 167 and the \<^verbatim>\<open>catch\<close> answers with
  status 500. Here both uploads succeed, the index is read and does not hold the id,
  and the fourth call is rejected.\<close>

theorem C7_rejected_write_counterexample:
  "accepted sample_env (post (submission ''abc''))
   \<and> handler scripted sample_env (post (submission ''abc''))
         [created, created, index_file ''other''] =
       (\<lparr>res_status = 500, res_headers = cors_headers, res_json = failure ''fetch failed''\<rparr>,
        [source_write ''t0k'' ''VBHC-UHY/whitesalary-plugins'' ''abc'' ''Test'' ''print(1)'',
         config_write ''t0k'' ''VBHC-UHY/whitesalary-plugins'' ''abc'' ''Test''
           (config_content (submission ''abc'')),
         index_read ''t0k'' ''VBHC-UHY/whitesalary-plugins'',
         index_write ''t0k'' ''VBHC-UHY/whitesalary-plugins'' ''Test''
           (JObj [(''version'', JStr ''1.0.0''), (''last_updated'', JStr ''2024-05-01''),
                  (''plugins'',
                   JArr [JObj [(''id'', JStr ''other'')],
                         index_entry ''VBHC-UHY/whitesalary-plugins'' ''abc''
                           (config_content (submission ''abc''))])])
           (JStr ''abc123'')],
        [])"
  using handler_run
    [where pf = scripted and ev = sample_env
       and req = "post (submission ''abc'')"
       and w = "[created, created, index_file ''other'']"
       and pluginId = "''abc''" and cn_name = "''Test''" and code = "''print(1)''"
       and ?r1.0 = "json_response 201 (JObj [(''commit'', JObj [(''sha'', JStr ''7638417'')])])"
       and ?w1.0 = "[created, index_file ''other'']"
       and ?r2.0 = "json_response 201 (JObj [(''commit'', JObj [(''sha'', JStr ''7638417'')])])"
       and ?w2.0 = "[index_file ''other'']"
       and ?r3.0 = "json_response 200
                      (JObj [(''content'', JStr (encoded (index_with ''other''))),
                             (''sha'', JStr ''abc123'')])"
       and ?w3.0 = "[]"
       and kvs = "[(''version'', JStr ''1.0.0''), (''last_updated'', JStr ''2024-01-01''),
                   (''plugins'', JArr [JObj [(''id'', JStr ''other'')]])]"
       and sha = "JStr ''abc123''"
       and ps = "[JObj [(''id'', JStr ''other'')]]"
       and ids = "[JStr ''other'']"
       and ?r4.0 = "Rejected ''fetch failed''" and ?w4.0 = "[]"]
    scripted_index_file [of "''other''"]
  by (simp add: post_def submission_def sample_env_def created_def index_file_def
      accepted_defs buffer_from_def token_of_def repo_of_def env_or_def default_repo_def
      array_includes_def with_entry_def respond_def)
    (simp add: scripted_def json_response_def ok_def)

subsection \<open>C8: the config file read back\<close>






subsection \<open>C9: the index entry and the config document\<close>

text \<open>
  Claim C9: for an accepted request whose two uploads succeeded and whose id is not
  in the index, the fourth call of the handler is the \<^verbatim>\<open>PUT\<close> of \<^verbatim>\<open>plugins.json\<close>,
  and the index it carries is the fetched one with one more entry at the end of its
  \<^verbatim>\<open>plugins\<close> (and the date of the update). That entry has the fields of the config
  document, with the same values and in the same order, and three more:
  \<^verbatim>\<open>downloads\<close> 0, \<^verbatim>\<open>rating\<close> 5 and \<^verbatim>\<open>download_url\<close>, the base URL followed by the
  repository, \<^verbatim>\<open>/main/plugins/\<close> and the id. Dropping the three from the entry
  leaves the config document itself. The entry is \<open>index_entry\<close>, written after the
  words of the specification; the handler builds it on lines 132--152.
\<close>

theorem C9_index_entry_agrees_with_config:
  assumes "accepted ev req"
    and "to_string (lookup (req_body req) ''id'') = Inr pluginId"
    and "to_string (lookup (req_body req) ''cn_name'') = Inr cn_name"
    and "buffer_from pf (lookup (req_body req) ''code'') = Inr code"
    and "fetch pf (source_write (token_of ev) (repo_of ev) pluginId cn_name code) w = (Resolved r1, w1)"
    and "ok r1"
    and "fetch pf (config_write (token_of ev) (repo_of ev) pluginId cn_name
                     (config_content (req_body req))) w1 = (Resolved r2, w2)"
    and "ok r2"
    and "fetch pf (index_read (token_of ev) (repo_of ev)) w2 = (Resolved r3, w3)"
    and "read_index pf r3 = Inr (JObj kvs, sha)"
    and "map_of kvs ''plugins'' = Some (JArr ps)"
    and "plugin_ids ps = Inr existingIds"
    and "\<not> array_includes existingIds (lookup (req_body req) ''id'')"
  shows "fst (snd (handler pf ev req w)) =
      [source_write (token_of ev) (repo_of ev) pluginId cn_name code,
       config_write (token_of ev) (repo_of ev) pluginId cn_name (config_content (req_body req)),
       index_read (token_of ev) (repo_of ev),
       \<lparr>fetch_url = ''https://api.github.com/repos/'' @ repo_of ev @ ''/contents/plugins.json'',
        fetch_method = ''PUT'',
        fetch_headers = github_headers (token_of ev),
        fetch_body =
          Some (JObj ([(''message'', JStr (''Add plugin to list: '' @ cn_name)),
                       (''content'',
                        JStr (encoded
                          (JObj (AList.update ''last_updated'' (JStr (today pf))
                             (AList.update ''plugins''
                                (JArr (ps @ [index_entry (repo_of ev) pluginId
                                                (config_content (req_body req))]))
                                kvs))))),
                       (''branch'', JStr ''main'')]
                      @ (if truthy sha then [(''sha'', sha)] else [])))\<rparr>]
   \<and> JObj (filter (\<lambda>(k, v). k \<notin> set index_only_fields)
             (fields (index_entry (repo_of ev) pluginId (config_content (req_body req)))))
       = config_content (req_body req)
   \<and> map fst (fields (config_content (req_body req))) = config_fields
   \<and> map fst (fields (index_entry (repo_of ev) pluginId (config_content (req_body req))))
       = [''id'', ''name'', ''cn_name'', ''version'', ''author'', ''description'',
          ''full_description'', ''category'', ''keywords'', ''triggers'', ''features'', ''usage'',
          ''commands'', ''changelog'', ''notes'', ''downloads'', ''rating'', ''featured'',
          ''download_url'']
   \<and> (\<forall>k \<in> set config_fields.
          lookup (index_entry (repo_of ev) pluginId (config_content (req_body req))) k
            = lookup (config_content (req_body req)) k)
   \<and> lookup (index_entry (repo_of ev) pluginId (config_content (req_body req))) ''downloads''
       = JNum (Finite 0)
   \<and> lookup (index_entry (repo_of ev) pluginId (config_content (req_body req))) ''rating''
       = JNum (Finite 5)
   \<and> lookup (index_entry (repo_of ev) pluginId (config_content (req_body req))) ''download_url''
       = JStr (''https://raw.githubusercontent.com/'' @ repo_of ev @ ''/main/plugins/'' @ pluginId)"
proof -
  let ?entry = "index_entry (repo_of ev) pluginId (config_content (req_body req))"
  let ?put = "index_write (token_of ev) (repo_of ev) cn_name
                (with_entry kvs ps ?entry (today pf)) sha"
  obtain r4 w4 where "fetch pf ?put w3 = (r4, w4)" by (cases "fetch pf ?put w3")
  from handler_run [OF assms(1-12) this] assms(13)
  have "fst (snd (handler pf ev req w)) =
      [source_write (token_of ev) (repo_of ev) pluginId cn_name code,
       config_write (token_of ev) (repo_of ev) pluginId cn_name (config_content (req_body req)),
       index_read (token_of ev) (repo_of ev), ?put]"
    by (simp add: respond_calls)
  then have calls: "fst (snd (handler pf ev req w)) =
      [source_write (token_of ev) (repo_of ev) pluginId cn_name code,
       config_write (token_of ev) (repo_of ev) pluginId cn_name (config_content (req_body req)),
       index_read (token_of ev) (repo_of ev),
       \<lparr>fetch_url = ''https://api.github.com/repos/'' @ repo_of ev @ ''/contents/plugins.json'',
        fetch_method = ''PUT'',
        fetch_headers = github_headers (token_of ev),
        fetch_body =
          Some (JObj ([(''message'', JStr (''Add plugin to list: '' @ cn_name)),
                       (''content'',
                        JStr (encoded
                          (JObj (AList.update ''last_updated'' (JStr (today pf))
                             (AList.update ''plugins'' (JArr (ps @ [?entry])) kvs))))),
                       (''branch'', JStr ''main'')]
                      @ (if truthy sha then [(''sha'', sha)] else [])))\<rparr>]"
    by (simp only: index_write_def with_entry_def)
  have same: "JObj (filter (\<lambda>(k, v). k \<notin> set index_only_fields) (fields ?entry))
       = config_content (req_body req)"
    by (simp add: index_entry_def config_content_def Let_def index_only_fields_def)
  have names: "map fst (fields (config_content (req_body req))) = config_fields"
    by (simp add: config_content_def Let_def config_fields_def)
  have order: "map fst (fields ?entry)
       = [''id'', ''name'', ''cn_name'', ''version'', ''author'', ''description'',
          ''full_description'', ''category'', ''keywords'', ''triggers'', ''features'', ''usage'',
          ''commands'', ''changelog'', ''notes'', ''downloads'', ''rating'', ''featured'',
          ''download_url'']"
    by (simp add: index_entry_def config_content_def Let_def)
  have shared: "\<forall>k \<in> set config_fields. lookup ?entry k = lookup (config_content (req_body req)) k"
    by (simp add: index_entry_def config_content_def Let_def config_fields_def)
  have added: "lookup ?entry ''downloads'' = JNum (Finite 0)" "lookup ?entry ''rating'' = JNum (Finite 5)"
    "lookup ?entry ''download_url''
       = JStr (''https://raw.githubusercontent.com/'' @ repo_of ev @ ''/main/plugins/'' @ pluginId)"
    by (simp_all add: index_entry_def config_content_def Let_def)
  from calls same names order shared added show ?thesis by (intro conjI)
qed

theorem C9_index_entry_agrees_with_config_witness:
  "fst (snd (handler scripted sample_env (post (submission ''abc''))
               [created, created, index_file ''other'', created])) ! 3 =
      index_write ''t0k'' ''VBHC-UHY/whitesalary-plugins'' ''Test''
         (JObj [(''version'', JStr ''1.0.0''), (''last_updated'', JStr ''2024-05-01''),
                (''plugins'',
                 JArr [JObj [(''id'', JStr ''other'')],
                       index_entry ''VBHC-UHY/whitesalary-plugins'' ''abc''
                         (config_content (submission ''abc''))])])
         (JStr ''abc123'')
   \<and> lookup (index_entry ''VBHC-UHY/whitesalary-plugins'' ''abc'' (config_content (submission ''abc'')))
        ''download_url''
       = JStr ''https://raw.githubusercontent.com/VBHC-UHY/whitesalary-plugins/main/plugins/abc''"
  using C9_index_entry_agrees_with_config
    [where pf = scripted and ev = sample_env
       and req = "post (submission ''abc'')"
       and w = "[created, created, index_file ''other'', created]"
       and pluginId = "''abc''" and cn_name = "''Test''" and code = "''print(1)''"
       and ?r1.0 = "json_response 201 (JObj [(''commit'', JObj [(''sha'', JStr ''7638417'')])])"
       and ?w1.0 = "[created, index_file ''other'', created]"
       and ?r2.0 = "json_response 201 (JObj [(''commit'', JObj [(''sha'', JStr ''7638417'')])])"
       and ?w2.0 = "[index_file ''other'', created]"
       and ?r3.0 = "json_response 200
                      (JObj [(''content'', JStr (encoded (index_with ''other''))),
                             (''sha'', JStr ''abc123'')])"
       and ?w3.0 = "[created]"
       and kvs = "[(''version'', JStr ''1.0.0''), (''last_updated'', JStr ''2024-01-01''),
                   (''plugins'', JArr [JObj [(''id'', JStr ''other'')]])]"
       and sha = "JStr ''abc123''"
       and ps = "[JObj [(''id'', JStr ''other'')]]"
       and existingIds = "[JStr ''other'']"]
    scripted_index_file [of "''other''"]
  by (simp add: post_def submission_def sample_env_def created_def index_file_def
      accepted_defs buffer_from_def token_of_def repo_of_def env_or_def default_repo_def
      array_includes_def index_write_def)
    (simp add: scripted_def json_response_def ok_def)

subsection \<open>C10: the defaults of the optional fields\<close>

text \<open>
  Claim C10: in the config document, \<^verbatim>\<open>full_description\<close> is the submitted one or else
  \<^verbatim>\<open>description\<close>; \<^verbatim>\<open>usage\<close> and \<^verbatim>\<open>notes\<close> are the submitted ones or else the empty
  string; \<^verbatim>\<open>features\<close> is the submitted one or else the empty list; \<^verbatim>\<open>commands\<close> is
  the submitted \<^verbatim>\<open>commands\<close> or else the empty list, and \<^verbatim>\<open>triggers\<close> is always equal
  to it; \<^verbatim>\<open>keywords\<close> is the empty list whatever is submitted. ``Or else'' is
  JavaScript's \<^verbatim>\<open>||\<close>: the default stands in for an absent or falsy value.
\<close>

theorem C10_optional_field_defaults:
  "lookup (config_content data) ''full_description''
     = (if truthy (lookup data ''full_description'') then lookup data ''full_description''
        else lookup data ''description'')
   \<and> lookup (config_content data) ''usage''
     = (if truthy (lookup data ''usage'') then lookup data ''usage'' else JStr [])
   \<and> lookup (config_content data) ''notes''
     = (if truthy (lookup data ''notes'') then lookup data ''notes'' else JStr [])
   \<and> lookup (config_content data) ''features''
     = (if truthy (lookup data ''features'') then lookup data ''features'' else JArr [])
   \<and> lookup (config_content data) ''commands''
     = (if truthy (lookup data ''commands'') then lookup data ''commands'' else JArr [])
   \<and> lookup (config_content data) ''triggers'' = lookup (config_content data) ''commands''
   \<and> lookup (config_content data) ''keywords'' = JArr []"
  by (simp add: config_content_def Let_def js_or_def)

section \<open>Further properties of the handler\<close>

text \<open>Every method other than \<^verbatim>\<open>POST\<close> is answered with status 405 and
  \<^verbatim>\<open>success\<close> false; nothing else happens.\<close>

theorem other_methods_rejected:
  "req_method req \<noteq> ''POST'' \<Longrightarrow>
     handler pf ev req w =
       (\<lparr>res_status = 405, res_headers = [], res_json = failure ''Method not allowed''\<rparr>, [], w)"
  by (simp add: handler_def)

theorem other_methods_rejected_witness:
  "handler scripted sample_env \<lparr>req_method = ''OPTIONS'', req_body = JUndefined\<rparr> [created]
     = (\<lparr>res_status = 405, res_headers = [], res_json = failure ''Method not allowed''\<rparr>,
        [], [created])"
  using other_methods_rejected
    [of "\<lparr>req_method = ''OPTIONS'', req_body = JUndefined\<rparr>" scripted sample_env "[created]"]
  by simp

text \<open>An accepted request whose \<^verbatim>\<open>cn_name\<close> does not convert to a string: the
  template literal of line 70 throws before the first call is made, and the
  \<^verbatim>\<open>catch\<close> answers with status 500 and the message of the exception.\<close>

theorem name_conversion_failure:
  assumes "accepted ev req"
    and "to_string (lookup (req_body req) ''cn_name'') = Inl e"
  shows "handler pf ev req w =
     (\<lparr>res_status = 500, res_headers = cors_headers, res_json = failure e\<rparr>, [], w)"
proof -
  obtain pluginId where "to_string (lookup (req_body req) ''id'') = Inr pluginId"
    using assms(1) by (rule accepted_id)
  with assms show ?thesis
    by (simp add: handler_accepted upload_plugin_def plugin_call_def plugin_path_def
        commit_message_def respond_def)
qed

theorem name_conversion_failure_witness:
  "handler scripted sample_env
     (post (JObj [(''id'', JStr ''abc''), (''cn_name'', JObj [(''toString'', JNum (Finite 1))]),
                  (''author'', JStr ''me''), (''description'', JStr ''demo''),
                  (''code'', JStr ''print(1)'')])) [created] =
     (\<lparr>res_status = 500, res_headers = cors_headers,
       res_json = failure ''Cannot convert object to primitive value''\<rparr>, [], [created])"
  using name_conversion_failure
    [where pf = scripted and ev = sample_env and w = "[created]"
       and e = "''Cannot convert object to primitive value''"
       and req = "post (JObj [(''id'', JStr ''abc''),
                    (''cn_name'', JObj [(''toString'', JNum (Finite 1))]),
                    (''author'', JStr ''me''), (''description'', JStr ''demo''),
                    (''code'', JStr ''print(1)'')])"]
  by (simp add: post_def sample_env_def accepted_defs cannot_convert_def)

text \<open>\<^verbatim>\<open>includes\<close> on a string looks for that very string among the ids.\<close>

theorem includes_string: "array_includes ids (JStr s) = (JStr s \<in> set ids)"
proof -
  have "same_value_zero x (JStr s) = (x = JStr s)" for x by (cases x) auto
  then show ?thesis by (auto simp: array_includes_def list_ex_iff)
qed

text \<open>A failed upload of the config file: status 500 with the upstream status code in
  the message; the source file written just before stays, and the index is not
  touched.\<close>

theorem config_upload_failure:
  assumes "accepted ev req"
    and "to_string (lookup (req_body req) ''id'') = Inr pluginId"
    and "to_string (lookup (req_body req) ''cn_name'') = Inr cn_name"
    and "buffer_from pf (lookup (req_body req) ''code'') = Inr code"
    and "fetch pf (source_write (token_of ev) (repo_of ev) pluginId cn_name code) w = (Resolved r1, w1)"
    and "ok r1"
    and "fetch pf (config_write (token_of ev) (repo_of ev) pluginId cn_name
                     (config_content (req_body req))) w1 = (Resolved r2, w2)"
    and "\<not> ok r2" and "body_text r2 = Inr errorText"
  shows "handler pf ev req w =
     (\<lparr>res_status = 500, res_headers = cors_headers,
       res_json = failure (msg_upload_failed ''config.json'' @ dec_nat (http_status r2))\<rparr>,
      [source_write (token_of ev) (repo_of ev) pluginId cn_name code,
       config_write (token_of ev) (repo_of ev) pluginId cn_name (config_content (req_body req))],
      w2)"
  using assms(1,7-9)
  by (simp add: handler_accepted upload_plugin_ok [OF assms(2-6)] upload_config_def
      config_call_write [OF assms(2,3)] respond_def)

theorem config_upload_failure_witness:
  "handler scripted sample_env (post (submission ''abc'')) [created, not_found, created] =
     (\<lparr>res_status = 500, res_headers = cors_headers,
       res_json = failure (msg_upload_failed ''config.json'' @ ''404'')\<rparr>,
      [source_write ''t0k'' ''VBHC-UHY/whitesalary-plugins'' ''abc'' ''Test'' ''print(1)'',
       config_write ''t0k'' ''VBHC-UHY/whitesalary-plugins'' ''abc'' ''Test''
         (config_content (submission ''abc''))],
      [created])"
  using config_upload_failure
    [where pf = scripted and ev = sample_env and req = "post (submission ''abc'')"
       and w = "[created, not_found, created]" and pluginId = "''abc''" and cn_name = "''Test''"
       and code = "''print(1)''"
       and ?r1.0 = "json_response 201 (JObj [(''commit'', JObj [(''sha'', JStr ''7638417'')])])"
       and ?w1.0 = "[not_found, created]"
       and ?r2.0 = "json_response 404 (JObj [(''message'', JStr ''Not Found'')])"
       and ?w2.0 = "[created]"
       and errorText = "json_text [] [] (JObj [(''message'', JStr ''Not Found'')])"]
  by (simp add: post_def submission_def sample_env_def created_def not_found_def accepted_defs
      buffer_from_def token_of_def repo_of_def env_or_def default_repo_def)
    (simp add: scripted_def json_response_def ok_def dec_nat.simps digit_char_def char_of_def
      bit_Suc_0_iff)

text \<open>When the read of the index is not a success, the handler starts from the empty
  index: the final write carries the index with the new entry as its only plugin, and
  no \<^verbatim>\<open>sha\<close>.\<close>

theorem first_index_written_without_sha:
  assumes "accepted ev req"
    and "to_string (lookup (req_body req) ''id'') = Inr pluginId"
    and "to_string (lookup (req_body req) ''cn_name'') = Inr cn_name"
    and "buffer_from pf (lookup (req_body req) ''code'') = Inr code"
    and "fetch pf (source_write (token_of ev) (repo_of ev) pluginId cn_name code) w = (Resolved r1, w1)"
    and "ok r1"
    and "fetch pf (config_write (token_of ev) (repo_of ev) pluginId cn_name
                     (config_content (req_body req))) w1 = (Resolved r2, w2)"
    and "ok r2"
    and "fetch pf (index_read (token_of ev) (repo_of ev)) w2 = (Resolved r3, w3)"
    and "\<not> ok r3"
  shows "fst (snd (handler pf ev req w)) ! 3 =
     \<lparr>fetch_url = ''https://api.github.com/repos/'' @ repo_of ev @ ''/contents/plugins.json'',
      fetch_method = ''PUT'', fetch_headers = github_headers (token_of ev),
      fetch_body = Some (JObj [
        (''message'', JStr (''Add plugin to list: '' @ cn_name)),
        (''content'', JStr (encoded (JObj [
           (''version'', JStr ''1.0.0''),
           (''last_updated'', JStr (today pf)),
           (''plugins'', JArr [index_entry (repo_of ev) pluginId (config_content (req_body req))])]))),
        (''branch'', JStr ''main'')])\<rparr>"
proof -
  let ?kvs = "[(''version'', JStr ''1.0.0''), (''last_updated'', JStr []), (''plugins'', JArr [])]"
  let ?put = "index_write (token_of ev) (repo_of ev) cn_name
                (with_entry ?kvs []
                   (index_entry (repo_of ev) pluginId (config_content (req_body req))) (today pf))
                JNull"
  obtain r4 w4 where "fetch pf ?put w3 = (r4, w4)" by (cases "fetch pf ?put w3")
  with assms have "fst (snd (handler pf ev req w)) ! 3 = ?put"
    using handler_run
      [where pf = pf and ev = ev and req = req and w = w and pluginId = pluginId
         and cn_name = cn_name and code = code and ?r1.0 = r1
         and ?w1.0 = w1 and ?r2.0 = r2 and ?w2.0 = w2 and ?r3.0 = r3 and ?w3.0 = w3
         and kvs = ?kvs and sha = JNull and ps = "[]"
         and ids = "[]" and ?r4.0 = r4 and ?w4.0 = w4]
    by (simp add: read_index_def empty_index_def array_includes_def respond_calls)
  then show ?thesis
    by (simp add: index_write_def with_entry_def)
qed

theorem first_index_written_without_sha_witness:
  "fetch_body (fst (snd (handler scripted sample_env (post (submission ''abc''))
                           [created, created, not_found, created])) ! 3) =
     Some (JObj [
        (''message'', JStr ''Add plugin to list: Test''),
        (''content'', JStr (encoded (JObj [
           (''version'', JStr ''1.0.0''),
           (''last_updated'', JStr ''2024-05-01''),
           (''plugins'', JArr [index_entry ''VBHC-UHY/whitesalary-plugins'' ''abc''
                                 (config_content (submission ''abc''))])]))),
        (''branch'', JStr ''main'')])"
  using first_index_written_without_sha
    [where pf = scripted and ev = sample_env and req = "post (submission ''abc'')"
       and w = "[created, created, not_found, created]" and pluginId = "''abc''"
       and cn_name = "''Test''" and code = "''print(1)''"
       and ?r1.0 = "json_response 201 (JObj [(''commit'', JObj [(''sha'', JStr ''7638417'')])])"
       and ?w1.0 = "[created, not_found, created]"
       and ?r2.0 = "json_response 201 (JObj [(''commit'', JObj [(''sha'', JStr ''7638417'')])])"
       and ?w2.0 = "[not_found, created]"
       and ?r3.0 = "json_response 404 (JObj [(''message'', JStr ''Not Found'')])"
       and ?w3.0 = "[created]"]
  by (simp add: post_def submission_def sample_env_def created_def not_found_def accepted_defs
      buffer_from_def token_of_def repo_of_def env_or_def default_repo_def)
    (simp add: scripted_def json_response_def ok_def)

text \<open>What \<open>json_stringify2\<close> writes for a JSON value, \<open>json_parse\<close> reads back;
  and the reader gets every such value back from its base64.\<close>

theorem stringify_then_parse:
  "wf_json v \<Longrightarrow>
     (case json_stringify2 v of None \<Rightarrow> Syntax_error | Some t \<Rightarrow> json_parse t) = Got v
     \<and> read_back (encoded v) = Got v"
  using json_parse_stringify [of v] read_back_encoded [of v] by auto

theorem stringify_then_parse_witness:
  "read_back (encoded (JArr [JNum (Finite (-12)), JStr ''a'',
                             JObj [(''7'', JBool True), (''k'', JNull)]]))
     = Got (JArr [JNum (Finite (-12)), JStr ''a'', JObj [(''7'', JBool True), (''k'', JNull)]])"
  using stringify_then_parse
    [of "JArr [JNum (Finite (-12)), JStr ''a'', JObj [(''7'', JBool True), (''k'', JNull)]]"]
  by (simp add: enumeration_order_def is_index_def array_index_def digit_def in_range_def
      digits_value_def digit_value_def index_key_def)

end
